theory Spec2Isabelle
  imports Main "HOL-Library.AList"
begin

section \<open>JavaScript values and the runtime the two bridges share\<close>

text \<open>
  The repository holds two subprocess bridges, \<^verbatim>\<open>PythonSpeechService\<close>
  (src/main/python-speech-service.js) and \<^verbatim>\<open>ClaudeCodeService\<close>
  (src/main/claude-code-service.js). Both are single-threaded event-loop code: every
  method and every callback runs to completion, so each is a function from the state
  before to the state after. Promises, timers, spawned processes and emitted events
  live in a \<open>runtime\<close> record that the functions thread through.

  Values are JSON values. Numbers are integers (request ids and exit codes are), and
  \<open>undefined\<close> is a missing field (\<open>None\<close>) or, as a promise's value, \<open>JNull\<close>.
  An object is the list of its properties in the order in which JavaScript enumerates
  them, which is the order in which \<^verbatim>\<open>JSON.stringify\<close> prints them.
\<close>

datatype json =
    JNull
  | JBool bool
  | JNum int
  | JStr string
  | JArr "json list"
  | JObj "(string \<times> json) list"

text \<open>Truthiness, as \<^verbatim>\<open>if (v)\<close> and \<^verbatim>\<open>!v\<close> read a value.\<close>

fun truthy :: "json \<Rightarrow> bool" where
  "truthy JNull = False"
| "truthy (JBool b) = b"
| "truthy (JNum n) = (n \<noteq> 0)"
| "truthy (JStr s) = (s \<noteq> [])"
| "truthy (JArr _) = True"
| "truthy (JObj _) = True"

fun opt_truthy :: "json option \<Rightarrow> bool" where
  "opt_truthy None = False"
| "opt_truthy (Some v) = truthy v"

text \<open>
  Property read \<^verbatim>\<open>v.name\<close>: a TypeError on \<open>null\<close>, the field of an object,
  \<open>undefined\<close> on every other value (no JSON array, string, number or boolean has a
  property called requestId, error or action).
\<close>

fun get_prop :: "json \<Rightarrow> string \<Rightarrow> json option option" where
  "get_prop JNull k = None"
| "get_prop (JObj fs) k = Some (map_of fs k)"
| "get_prop _ k = Some None"

text \<open>Decimal rendering of a number, \<^verbatim>\<open>n.toString()\<close> and \<^verbatim>\<open>`${n}`\<close>.\<close>

definition digit_char :: "nat \<Rightarrow> char" where
  "digit_char d = ''0123456789'' ! d"

function string_of_nat :: "nat \<Rightarrow> string" where
  "string_of_nat n =
     (if n < 10 then [digit_char n] else string_of_nat (n div 10) @ [digit_char (n mod 10)])"
  by pat_completeness auto
termination
  by (relation "measure id") auto

declare string_of_nat.simps [simp del]

definition string_of_int :: "int \<Rightarrow> string" where
  "string_of_int i = (if i < 0 then CHR ''-'' # string_of_nat (nat (- i)) else string_of_nat (nat i))"

text \<open>
  The order of the properties of an object: array indices first, in ascending order,
  then the other keys in the order in which they were added. An array index is the
  canonical decimal form of an integer from 0 to \<open>2\<^sup>3\<^sup>2 - 2\<close>.
\<close>

definition is_digit :: "char \<Rightarrow> bool" where
  "is_digit c = (48 \<le> (of_char c :: nat) \<and> (of_char c :: nat) \<le> 57)"

definition nat_of_digits :: "string \<Rightarrow> nat" where
  "nat_of_digits k = foldl (\<lambda>n c. 10 * n + (of_char c - 48)) 0 k"

definition array_index :: "string \<Rightarrow> nat option" where
  "array_index k =
     (if k \<noteq> [] \<and> list_all is_digit k \<and> (length k = 1 \<or> take 1 k \<noteq> ''0'')
         \<and> nat_of_digits k \<le> 4294967294
      then Some (nat_of_digits k) else None)"

definition js_order :: "(string \<times> json) list \<Rightarrow> (string \<times> json) list" where
  "js_order fs =
     sort_key (\<lambda>(k, v). case array_index k of Some n \<Rightarrow> n | None \<Rightarrow> 0)
       (filter (\<lambda>(k, v). array_index k \<noteq> None) fs)
     @ filter (\<lambda>(k, v). array_index k = None) fs"

text \<open>
  \<^verbatim>\<open>s.trim()\<close> removes leading and trailing white space; of the code units a
  \<open>char\<close> can hold these are tab, line feed, vertical tab, form feed, carriage return,
  space and no-break space.
\<close>

definition is_space :: "char \<Rightarrow> bool" where
  "is_space c = (of_char c \<in> {9::nat, 10, 11, 12, 13, 32, 160})"

definition trim :: "string \<Rightarrow> string" where
  "trim s = rev (dropWhile is_space (rev (dropWhile is_space s)))"

text \<open>\<^verbatim>\<open>s.split('\n')\<close>: never empty, one more piece than there are line feeds.\<close>

fun split_lines :: "string \<Rightarrow> string list" where
  "split_lines [] = [[]]"
| "split_lines (c # cs) =
     (if c = CHR 0x0A then [] # split_lines cs
      else (case split_lines cs of l # ls \<Rightarrow> (c # l) # ls | [] \<Rightarrow> [[c]]))"

text \<open>\<^verbatim>\<open>data.toString().split('\n').filter(line => line.trim())\<close>\<close>

definition nonblank_lines :: "string \<Rightarrow> string list" where
  "nonblank_lines content = filter (\<lambda>line. trim line \<noteq> []) (split_lines content)"

subsection \<open>Promises, timers, processes\<close>

text \<open>
  The state of a promise. \<open>Rejected msg\<close> is a rejection with an error whose message
  is \<open>msg\<close>. Two settlements are kept as they are written in the source, because
  their outcome is computed by the JavaScript library: \<open>RejectedValue v\<close> is a
  rejection with \<^verbatim>\<open>new Error(v)\<close> for a value \<open>v\<close> that is not a string (the
  message is then \<^verbatim>\<open>String(v)\<close>), and \<open>BufferFrom v\<close> is the settlement of an
  async function that ends in \<^verbatim>\<open>return Buffer.from(v, 'base64')\<close>: resolved with
  the buffer if the call returns one, rejected with the exception if it throws.
\<close>

datatype settled =
    Unsettled
  | Resolved json
  | Rejected string
  | RejectedValue json
  | BufferFrom "json option"

text \<open>A rejection with \<^verbatim>\<open>new Error(v)\<close>: the message of the error is \<open>v\<close> itself when
  \<open>v\<close> is a string, and empty when \<open>v\<close> is \<open>undefined\<close>.\<close>

fun new_Error :: "json option \<Rightarrow> settled" where
  "new_Error None = Rejected []"
| "new_Error (Some (JStr msg)) = Rejected msg"
| "new_Error (Some v) = RejectedValue v"

text \<open>
  What \<^verbatim>\<open>await\<close> and \<^verbatim>\<open>.then(resolve).catch(reject)\<close> attach to a promise:
  \<open>Forward q\<close> settles \<open>q\<close> the same way (the queue drain of both bridges);
  \<open>Synthesize q\<close> is the rest of \<^verbatim>\<open>synthesizeSpeech\<close> after its await.
\<close>

datatype continuation = Forward nat | Synthesize nat

text \<open>What is written to a child's stdin: \<^verbatim>\<open>JSON.stringify(obj) + '\n'\<close> or text.\<close>

datatype wire = JsonLine "(string \<times> json) list" | Raw string

datatype effect =
    Spawn nat
  | Write nat wire
  | Kill nat string
  | Emit string

record 'cb runtime =
  promises :: "nat \<Rightarrow> settled"
  continuations :: "nat \<Rightarrow> continuation option"
  next_promise :: nat
  timers :: "(nat \<times> int \<times> 'cb) list"
  next_timer :: nat
  arrays :: "nat \<Rightarrow> string list"
  next_array :: nat
  next_pid :: nat
  trace :: "effect list"
  spawn_error :: "string option"
  write_error :: "string option"
  error_listener :: bool

text \<open>
  \<open>timers\<close> holds the armed timers: handle, delay in milliseconds and callback
  (each bridge has its own callbacks, hence the type parameter). Time itself is not
  modelled: the environment fires an armed timer when its delay has passed.
  \<open>arrays\<close> is the store of the log arrays, addressed by reference, so that two
  holders of one array see each other's pushes. \<open>spawn_error\<close> and \<open>write_error\<close>
  are the environment: what \<^verbatim>\<open>spawn\<close> and \<^verbatim>\<open>stdin.write\<close> throw, if
  anything. \<open>error_listener\<close> says whether an \<^verbatim>\<open>'error'\<close> listener is attached:
  an EventEmitter with none throws on \<^verbatim>\<open>emit('error', e)\<close>.
\<close>

definition new_promise :: "'cb runtime \<Rightarrow> nat \<times> 'cb runtime" where
  "new_promise r =
     (next_promise r,
      r\<lparr>promises := (promises r)(next_promise r := Unsettled),
        continuations := (continuations r)(next_promise r := None),
        next_promise := Suc (next_promise r)\<rparr>)"

text \<open>The part of \<^verbatim>\<open>synthesizeSpeech\<close> after \<^verbatim>\<open>await this.sendRequest(request)\<close>:
  a rejection of the awaited promise is rethrown; reading \<^verbatim>\<open>response.error\<close> of
  \<open>null\<close> is a TypeError; a truthy \<^verbatim>\<open>response.error\<close> is thrown as an error;
  otherwise the function returns \<^verbatim>\<open>Buffer.from(response.audioData, 'base64')\<close>.\<close>

definition synthesize_after :: "settled \<Rightarrow> settled" where
  "synthesize_after s =
     (case s of
        Resolved response \<Rightarrow>
          (case get_prop response ''error'' of
             None \<Rightarrow> Rejected ''TypeError''
           | Some e \<Rightarrow>
               if opt_truthy e then new_Error e
               else (case get_prop response ''audioData'' of
                       None \<Rightarrow> Rejected ''TypeError''
                     | Some audioData \<Rightarrow> BufferFrom audioData))
      | other \<Rightarrow> other)"

text \<open>
  Settling a promise: only the first settlement has an effect, and it runs the
  continuation. A continuation always leads to a promise created earlier (the guard
  \<open>q < p\<close>), which bounds the chain.
\<close>

function settle :: "nat \<Rightarrow> settled \<Rightarrow> 'cb runtime \<Rightarrow> 'cb runtime" where
  "settle p s r =
     (if promises r p \<noteq> Unsettled then r
      else (case continuations r p of
              None \<Rightarrow> r\<lparr>promises := (promises r)(p := s)\<rparr>
            | Some (Forward q) \<Rightarrow>
                if q < p then settle q s (r\<lparr>promises := (promises r)(p := s)\<rparr>)
                else r\<lparr>promises := (promises r)(p := s)\<rparr>
            | Some (Synthesize q) \<Rightarrow>
                if q < p then settle q (synthesize_after s) (r\<lparr>promises := (promises r)(p := s)\<rparr>)
                else r\<lparr>promises := (promises r)(p := s)\<rparr>))"
  by pat_completeness auto
termination
  by (relation "measure (\<lambda>(p, s, r). p)") auto

declare settle.simps [simp del]

definition attach :: "nat \<Rightarrow> continuation \<Rightarrow> 'cb runtime \<Rightarrow> 'cb runtime" where
  "attach p k r = r\<lparr>continuations := (continuations r)(p := Some k)\<rparr>"

definition set_timeout :: "int \<Rightarrow> 'cb \<Rightarrow> 'cb runtime \<Rightarrow> nat \<times> 'cb runtime" where
  "set_timeout delay f r =
     (next_timer r,
      r\<lparr>timers := timers r @ [(next_timer r, delay, f)], next_timer := Suc (next_timer r)\<rparr>)"

definition clear_timeout :: "nat \<Rightarrow> 'cb runtime \<Rightarrow> 'cb runtime" where
  "clear_timeout t r = r\<lparr>timers := AList.delete t (timers r)\<rparr>"

definition effect :: "effect \<Rightarrow> 'cb runtime \<Rightarrow> 'cb runtime" where
  "effect e r = r\<lparr>trace := trace r @ [e]\<rparr>"

definition new_array :: "string list \<Rightarrow> 'cb runtime \<Rightarrow> nat \<times> 'cb runtime" where
  "new_array xs r =
     (next_array r,
      r\<lparr>arrays := (arrays r)(next_array r := xs), next_array := Suc (next_array r)\<rparr>)"

definition array_push :: "nat \<Rightarrow> string \<Rightarrow> 'cb runtime \<Rightarrow> 'cb runtime" where
  "array_push a x r = r\<lparr>arrays := (arrays r)(a := arrays r a @ [x])\<rparr>"

definition spawn :: "'cb runtime \<Rightarrow> nat \<times> 'cb runtime" where
  "spawn r = (next_pid r, effect (Spawn (next_pid r)) (r\<lparr>next_pid := Suc (next_pid r)\<rparr>))"

text \<open>The lines written to the stdin of process \<open>pid\<close>, in order.\<close>

definition written :: "nat \<Rightarrow> 'cb runtime \<Rightarrow> wire list" where
  "written pid r = concat (map (\<lambda>e. case e of Write q w \<Rightarrow> if q = pid then [w] else [] | _ \<Rightarrow> []) (trace r))"

record logs =
  errors :: nat
  info :: nat

text \<open>The result of a call: an exception thrown to the caller, or a promise.\<close>

datatype call_result = Throws string | Returns nat

text \<open>\<^verbatim>\<open>{...base, ...extra}\<close>: a later property overwrites an earlier one of the
  same key in place and is added otherwise; the new object enumerates its array
  indices first.\<close>

definition spread :: "(string \<times> json) list \<Rightarrow> (string \<times> json) list \<Rightarrow> (string \<times> json) list" where
  "spread base extra = js_order (fold (\<lambda>(k, v). AList.update k v) extra base)"


text \<open>An initial runtime: nothing allocated, no environment failure, a listener attached.\<close>

definition runtime0 :: "'cb runtime" where
  "runtime0 =
     \<lparr>promises = (\<lambda>_. Unsettled), continuations = (\<lambda>_. None), next_promise = 0,
      timers = [], next_timer = 0, arrays = (\<lambda>_. []), next_array = 0, next_pid = 0,
      trace = [], spawn_error = None, write_error = None, error_listener = True\<rparr>"

section \<open>The speech bridge: python-speech-service.js\<close>

datatype py_callback =
    PyTimeout int "(string \<times> json) list" nat
  | PyRestart

text \<open>
  \<open>PyTimeout requestId request p\<close> is the timeout callback of \<^verbatim>\<open>sendRequest\<close>,
  closed over the request id, the request object and the raw resolve and reject of
  promise \<open>p\<close>; \<open>PyRestart\<close> is the restart callback of the exit handler.

  A queued call is \<^verbatim>\<open>{ request, resolve, reject, timeout }\<close>. A pending entry
  is \<^verbatim>\<open>{ resolve, reject }\<close>, two closures that clear the timer \<open>h_timer\<close> and
  then settle the promise \<open>h_promise\<close>.
\<close>

record py_queued =
  q_request :: "(string \<times> json) list"
  q_promise :: nat
  q_timeout :: int

record handlers =
  h_timer :: nat
  h_promise :: nat

record py_service =
  pythonProcess :: "nat option"
  py_isReady :: bool
  py_requestQueue :: "py_queued list"
  py_pendingRequests :: "(int \<times> handlers) list"
  py_requestId :: int
  py_maxQueueSize :: nat
  py_logs :: logs
  py_rt :: "py_callback runtime"

definition py_constructor :: "py_callback runtime \<Rightarrow> py_service" where
  "py_constructor r =
     (let (e, r1) = new_array [] r; (i, r2) = new_array [] r1
      in \<lparr>pythonProcess = None, py_isReady = False, py_requestQueue = [],
          py_pendingRequests = [], py_requestId = 0, py_maxQueueSize = 10,
          py_logs = \<lparr>errors = e, info = i\<rparr>, py_rt = r2\<rparr>)"

definition py_reset :: "py_service \<Rightarrow> py_service" where
  "py_reset st =
     (let (e, r1) = new_array [] (py_rt st); (i, r2) = new_array [] r1
      in st\<lparr>pythonProcess := None, py_isReady := False, py_requestQueue := [],
            py_pendingRequests := [], py_requestId := 0,
            py_logs := \<lparr>errors = e, info = i\<rparr>, py_rt := r2\<rparr>)"

definition py_log_error :: "string \<Rightarrow> py_service \<Rightarrow> py_service" where
  "py_log_error msg st = st\<lparr>py_rt := array_push (errors (py_logs st)) msg (py_rt st)\<rparr>"

definition py_isRunning :: "py_service \<Rightarrow> bool" where
  "py_isRunning st = (py_isReady st \<and> pythonProcess st \<noteq> None)"

text \<open>The two closures stored in a pending entry.\<close>

definition resolve_handler :: "'a handlers_scheme \<Rightarrow> json \<Rightarrow> 'cb runtime \<Rightarrow> 'cb runtime" where
  "resolve_handler h v r = settle (h_promise h) (Resolved v) (clear_timeout (h_timer h) r)"

definition reject_handler :: "'a handlers_scheme \<Rightarrow> string \<Rightarrow> 'cb runtime \<Rightarrow> 'cb runtime" where
  "reject_handler h msg r = settle (h_promise h) (Rejected msg) (clear_timeout (h_timer h) r)"

text \<open>The reject closure called as \<^verbatim>\<open>reject(new Error(response.error))\<close>.\<close>

definition reject_error :: "'a handlers_scheme \<Rightarrow> json option \<Rightarrow> 'cb runtime \<Rightarrow> 'cb runtime" where
  "reject_error h e r = settle (h_promise h) (new_Error e) (clear_timeout (h_timer h) r)"

text \<open>
  \<^verbatim>\<open>async sendRequest(request, timeout = 10000)\<close>. An async function never throws
  to its caller: the result is always a promise. The promise it returns adopts the one
  its body returns, so the two are one promise here. \<open>py_write_failed\<close> is the catch
  block around the write; reading \<^verbatim>\<open>stdin\<close> of a process that is \<open>null\<close> is a
  TypeError, which that block catches too.
\<close>

definition py_write_failed :: "int \<Rightarrow> nat \<Rightarrow> nat \<Rightarrow> string \<Rightarrow> py_service \<Rightarrow> py_service" where
  "py_write_failed requestId timeoutHandle p msg st =
     st\<lparr>py_pendingRequests := AList.delete requestId (py_pendingRequests st),
        py_rt := settle p (Rejected msg) (clear_timeout timeoutHandle (py_rt st))\<rparr>"

definition py_sendRequest :: "(string \<times> json) list \<Rightarrow> int \<Rightarrow> py_service \<Rightarrow> call_result \<times> py_service" where
  "py_sendRequest request timeout st =
     (let (p, r0) = new_promise (py_rt st) in
      if \<not> py_isRunning st then
        if length (py_requestQueue st) \<ge> py_maxQueueSize st
        then (Returns p, st\<lparr>py_rt := settle p (Rejected ''Request queue full'') r0\<rparr>)
        else (Returns p,
              st\<lparr>py_requestQueue := py_requestQueue st @
                     [\<lparr>q_request = request, q_promise = p, q_timeout = timeout\<rparr>],
                 py_rt := r0\<rparr>)
      else
        let requestId = py_requestId st + 1;
            request' = AList.update ''requestId'' (JNum requestId) request;
            (timeoutHandle, r1) = set_timeout timeout (PyTimeout requestId request' p) r0;
            st1 = st\<lparr>py_requestId := requestId,
                      py_pendingRequests :=
                        AList.update requestId \<lparr>h_timer = timeoutHandle, h_promise = p\<rparr>
                          (py_pendingRequests st),
                      py_rt := r1\<rparr>
        in (case pythonProcess st of
              None \<Rightarrow> (Returns p, py_write_failed requestId timeoutHandle p ''TypeError'' st1)
            | Some pid \<Rightarrow>
                (case write_error r1 of
                   None \<Rightarrow> (Returns p, st1\<lparr>py_rt := effect (Write pid (JsonLine request')) r1\<rparr>)
                 | Some e \<Rightarrow> (Returns p, py_write_failed requestId timeoutHandle p e st1))))"

text \<open>\<^verbatim>\<open>inner.then(resolve).catch(reject)\<close> with the resolve and reject of promise \<open>q\<close>:
  at once if \<open>inner\<close> is settled already, as a continuation otherwise.\<close>

definition forward_to :: "nat \<Rightarrow> call_result \<Rightarrow> 'cb runtime \<Rightarrow> 'cb runtime" where
  "forward_to q res r =
     (case res of
        Throws _ \<Rightarrow> r
      | Returns inner \<Rightarrow>
          (case promises r inner of
             Unsettled \<Rightarrow> attach inner (Forward q) r
           | s \<Rightarrow> settle q s r))"

text \<open>\<^verbatim>\<open>processQueue()\<close>: while the queue is not empty and the service runs, shift
  the first entry and send it through \<^verbatim>\<open>sendRequest\<close>.\<close>

function py_processQueue :: "py_service \<Rightarrow> py_service" where
  "py_processQueue st =
     (case py_requestQueue st of
        [] \<Rightarrow> st
      | q # rest \<Rightarrow>
          if \<not> py_isRunning st then st
          else (let (res, st1) = py_sendRequest (q_request q) (q_timeout q) (st\<lparr>py_requestQueue := rest\<rparr>)
                in py_processQueue (st1\<lparr>py_rt := forward_to (q_promise q) res (py_rt st1)\<rparr>)))"
  by pat_completeness auto

termination
  apply (relation "measure (\<lambda>st. length (py_requestQueue st))")
   apply simp
  apply (simp add: py_sendRequest_def py_write_failed_def py_isRunning_def Let_def split: prod.splits option.splits if_splits)
  done

declare py_processQueue.simps [simp del]

text \<open>
  \<^verbatim>\<open>async start()\<close>. \<^verbatim>\<open>spawn\<close> may throw; the catch block clears
  \<^verbatim>\<open>isReady\<close> and rethrows, which rejects the promise.
\<close>

definition py_start :: "py_service \<Rightarrow> nat \<times> py_service" where
  "py_start st =
     (let (p, r0) = new_promise (py_rt st) in
      if pythonProcess st \<noteq> None then (p, st\<lparr>py_rt := settle p (Resolved JNull) r0\<rparr>)
      else (case spawn_error r0 of
              Some e \<Rightarrow> (p, st\<lparr>py_isReady := False, py_rt := settle p (Rejected e) r0\<rparr>)
            | None \<Rightarrow>
                let (pid, r1) = spawn r0;
                    st1 = py_processQueue
                            (st\<lparr>pythonProcess := Some pid, py_isReady := True,
                                py_rt := effect (Emit ''started'') r1\<rparr>)
                in (p, st1\<lparr>py_rt := settle p (Resolved JNull) (py_rt st1)\<rparr>)))"

text \<open>\<^verbatim>\<open>handlePythonResponse(response)\<close>. The first component is the exception it
  throws, if any: reading \<^verbatim>\<open>response.requestId\<close> of \<open>null\<close> is a TypeError.
  The keys of the table are numbers, so only a number can be found in it.\<close>

definition py_has :: "json option \<Rightarrow> py_service \<Rightarrow> handlers option" where
  "py_has requestId st =
     (case requestId of
        Some (JNum n) \<Rightarrow> map_of (py_pendingRequests st) n
      | _ \<Rightarrow> None)"

definition py_delete :: "json option \<Rightarrow> py_service \<Rightarrow> py_service" where
  "py_delete requestId st =
     (case requestId of
        Some (JNum n) \<Rightarrow> st\<lparr>py_pendingRequests := AList.delete n (py_pendingRequests st)\<rparr>
      | _ \<Rightarrow> st)"

definition audio_format_result :: json where
  "audio_format_result =
     JObj [(''transcript'', JStr []), (''confidence'', JNum 0),
           (''error'', JStr ''Audio format not supported'')]"

fun handlePythonResponse :: "json \<Rightarrow> py_service \<Rightarrow> string option \<times> py_service" where
  "handlePythonResponse JNull st = (Some ''TypeError'', st)"
| "handlePythonResponse (JObj response) st =
     (case (if opt_truthy (map_of response ''requestId'')
            then py_has (map_of response ''requestId'') st else None) of
        None \<Rightarrow> (None, st)
      | Some h \<Rightarrow>
          (let st1 = py_delete (map_of response ''requestId'') st
           in if opt_truthy (map_of response ''error'') then
                if map_of response ''error'' = Some (JStr ''Audio format not supported'') then
                  (None, st1\<lparr>py_rt := resolve_handler h audio_format_result (py_rt st1)\<rparr>)
                else
                  (None, st1\<lparr>py_rt := reject_error h (map_of response ''error'') (py_rt st1)\<rparr>)
              else
                (None, st1\<lparr>py_rt := resolve_handler h (JObj (AList.delete ''requestId'' response)) (py_rt st1)\<rparr>)))"
| "handlePythonResponse _ st = (None, st)"

text \<open>
  The stdout handler. \<open>parse\<close> is \<^verbatim>\<open>JSON.parse\<close>: \<open>Inl\<close> the message of the
  SyntaxError, \<open>Inr\<close> the value. \<open>py_line\<close> is the body of the loop over the
  lines: the try block holds the parse and the handler, so an exception of either is
  logged as a parse failure.
\<close>

definition py_line :: "(string \<Rightarrow> string + json) \<Rightarrow> string \<Rightarrow> py_service \<Rightarrow> py_service" where
  "py_line parse line st =
     (case parse line of
        Inl _ \<Rightarrow> py_log_error (''Failed to parse Python response: '' @ line) st
      | Inr response \<Rightarrow>
          (case handlePythonResponse response st of
             (None, st1) \<Rightarrow> st1
           | (Some _, st1) \<Rightarrow> py_log_error (''Failed to parse Python response: '' @ line) st1))"

fun py_lines :: "(string \<Rightarrow> string + json) \<Rightarrow> string list \<Rightarrow> py_service \<Rightarrow> py_service" where
  "py_lines parse [] st = st"
| "py_lines parse (line # rest) st = py_lines parse rest (py_line parse line st)"

definition py_on_stdout :: "(string \<Rightarrow> string + json) \<Rightarrow> string \<Rightarrow> py_service \<Rightarrow> py_service" where
  "py_on_stdout parse data st = py_lines parse (nonblank_lines data) st"

text \<open>\<^verbatim>\<open>async stop()\<close>\<close>

definition py_stop :: "py_service \<Rightarrow> nat \<times> py_service" where
  "py_stop st =
     (let (p, r0) = new_promise (py_rt st) in
      case pythonProcess st of
        None \<Rightarrow> (p, st\<lparr>py_rt := settle p (Resolved JNull) r0\<rparr>)
      | Some pid \<Rightarrow>
          let r1 = effect (Kill pid ''SIGTERM'') r0;
              r2 = fold (\<lambda>(requestId, h). reject_handler h ''Service stopped'') (py_pendingRequests st) r1;
              r3 = effect (Emit ''stopped'') r2
          in (p, st\<lparr>pythonProcess := None, py_isReady := False, py_pendingRequests := [],
                    py_rt := settle p (Resolved JNull) r3\<rparr>))"



text \<open>Running the callback of timer \<open>t\<close>, if it is still armed.\<close>

definition py_timeout_result :: json where
  "py_timeout_result =
     JObj [(''transcript'', JStr []), (''confidence'', JNum 0), (''error'', JStr ''Recognition timeout'')]"

fun py_run_callback :: "py_callback \<Rightarrow> py_service \<Rightarrow> py_service" where
  "py_run_callback (PyTimeout requestId request p) st =
     (let st1 = st\<lparr>py_pendingRequests := AList.delete requestId (py_pendingRequests st)\<rparr> in
      if map_of request ''action'' = Some (JStr ''recognize'')
      then st1\<lparr>py_rt := settle p (Resolved py_timeout_result) (py_rt st1)\<rparr>
      else st1\<lparr>py_rt := settle p (Rejected ''Request timeout'') (py_rt st1)\<rparr>)"
| "py_run_callback PyRestart st =
     (let (p, st1) = py_start st in
      case promises (py_rt st1) p of
        Rejected msg \<Rightarrow> py_log_error (''Failed to restart Python service: '' @ msg) st1
      | _ \<Rightarrow> st1)"

definition py_fire :: "nat \<Rightarrow> py_service \<Rightarrow> py_service" where
  "py_fire t st =
     (case map_of (timers (py_rt st)) t of
        None \<Rightarrow> st
      | Some (delay, f) \<Rightarrow> py_run_callback f (st\<lparr>py_rt := clear_timeout t (py_rt st)\<rparr>))"

text \<open>\<^verbatim>\<open>getLogs()\<close> is \<^verbatim>\<open>{ ...this.logs }\<close>: a new object whose two properties
  are the references held by \<^verbatim>\<open>this.logs\<close>.\<close>

definition py_getLogs :: "py_service \<Rightarrow> logs" where
  "py_getLogs st = \<lparr>errors = errors (py_logs st), info = info (py_logs st)\<rparr>"

definition py_clearLogs :: "py_service \<Rightarrow> py_service" where
  "py_clearLogs st =
     (let (e, r1) = new_array [] (py_rt st); (i, r2) = new_array [] r1
      in st\<lparr>py_logs := \<lparr>errors = e, info = i\<rparr>, py_rt := r2\<rparr>)"

text \<open>\<^verbatim>\<open>async synthesizeSpeech(text, config = {})\<close>. The guard is
  \<^verbatim>\<open>!text || typeof text !== 'string' || text.trim() === ''\<close>.\<close>

definition typeof_string :: "json \<Rightarrow> bool" where
  "typeof_string v = (case v of JStr _ \<Rightarrow> True | _ \<Rightarrow> False)"

definition string_value :: "json \<Rightarrow> string" where
  "string_value v = (case v of JStr s \<Rightarrow> s | _ \<Rightarrow> [])"

definition text_rejected :: "json \<Rightarrow> bool" where
  "text_rejected text = (\<not> truthy text \<or> \<not> typeof_string text \<or> trim (string_value text) = [])"

definition await_synthesize :: "nat \<Rightarrow> call_result \<Rightarrow> 'cb runtime \<Rightarrow> 'cb runtime" where
  "await_synthesize p res r =
     (case res of
        Throws msg \<Rightarrow> settle p (Rejected msg) r
      | Returns inner \<Rightarrow>
          (case promises r inner of
             Unsettled \<Rightarrow> attach inner (Synthesize p) r
           | s \<Rightarrow> settle p (synthesize_after s) r))"

definition py_synthesizeSpeech :: "json \<Rightarrow> (string \<times> json) list \<Rightarrow> py_service \<Rightarrow> call_result \<times> py_service" where
  "py_synthesizeSpeech text config st =
     (let (p, r0) = new_promise (py_rt st) in
      if text_rejected text
      then (Returns p, st\<lparr>py_rt := settle p (Rejected ''Text cannot be empty'') r0\<rparr>)
      else
        let request = [(''action'', JStr ''synthesize''),
                       (''text'', JStr (trim (string_value text))),
                       (''config'', JObj (spread [(''voice'', JStr ''default''), (''rate'', JNum 150)] config))];
            (res, st1) = py_sendRequest request 10000 (st\<lparr>py_rt := r0\<rparr>)
        in (Returns p, st1\<lparr>py_rt := await_synthesize p res (py_rt st1)\<rparr>))"

section \<open>The assistant bridge: claude-code-service.js\<close>

datatype cl_callback =
    ClTimeout string nat
  | ClRestart
  | ForceKill nat

text \<open>
  \<open>ClTimeout requestId p\<close> is the timeout callback of \<^verbatim>\<open>_sendRequest\<close> and
  \<^verbatim>\<open>_sendPromptToClaudeCode\<close>, closed over the request id and the reject of
  promise \<open>p\<close>; \<open>ClRestart\<close> is the restart callback of the exit handler;
  \<open>ForceKill p\<close> is the forced kill armed by \<^verbatim>\<open>stop()\<close>, closed over the
  resolve of the promise \<open>p\<close> that \<^verbatim>\<open>stop()\<close> returned.

  A queued call is \<^verbatim>\<open>{ action, data, resolve, reject, timeout }\<close> or
  \<^verbatim>\<open>{ type: 'prompt', prompt, resolve, reject, timeout }\<close>. A pending entry
  clears its timer and then settles its promise; \<open>h_prompt\<close> marks an entry of
  \<^verbatim>\<open>_sendPromptToClaudeCode\<close>, whose resolve first extracts a JSON object from
  the text it is given.
\<close>

datatype cl_queued =
    QueuedRequest string "(string \<times> json) list" nat int
  | QueuedPrompt string nat int

record cl_handlers = handlers +
  h_prompt :: bool

record cl_service =
  claudeProcess :: "nat option"
  cl_isReady :: bool
  cl_requestQueue :: "cl_queued list"
  cl_pendingRequests :: "(string \<times> cl_handlers) list"
  cl_requestId :: int
  cl_maxQueueSize :: nat
  cl_logs :: logs
  cl_rt :: "cl_callback runtime"
  cl_started_by :: "(nat \<times> nat) list"
  cl_exit_once :: "(nat \<times> nat) list"

text \<open>
  The last two fields hold the closures attached to process objects:
  \<open>cl_started_by\<close> maps a process to the promise of the \<^verbatim>\<open>start()\<close> that spawned it
  (the resolve and reject given to \<^verbatim>\<open>_setupProcessHandlers\<close>), and
  \<open>cl_exit_once\<close> lists the \<^verbatim>\<open>once('exit', ...)\<close> listeners of \<^verbatim>\<open>stop()\<close>, each
  with the process it is attached to and the promise it resolves.
\<close>

definition cl_constructor :: "cl_callback runtime \<Rightarrow> cl_service" where
  "cl_constructor r =
     (let (e, r1) = new_array [] r; (i, r2) = new_array [] r1
      in \<lparr>claudeProcess = None, cl_isReady = False, cl_requestQueue = [],
          cl_pendingRequests = [], cl_requestId = 0, cl_maxQueueSize = 10,
          cl_logs = \<lparr>errors = e, info = i\<rparr>, cl_rt = r2,
          cl_started_by = [], cl_exit_once = []\<rparr>)"

definition cl_reset :: "cl_service \<Rightarrow> cl_service" where
  "cl_reset st =
     (let (e, r1) = new_array [] (cl_rt st); (i, r2) = new_array [] r1
      in st\<lparr>claudeProcess := None, cl_isReady := False, cl_requestQueue := [],
            cl_pendingRequests := [], cl_requestId := 0,
            cl_logs := \<lparr>errors = e, info = i\<rparr>, cl_rt := r2\<rparr>)"

definition cl_log_error :: "string \<Rightarrow> cl_service \<Rightarrow> cl_service" where
  "cl_log_error msg st = st\<lparr>cl_rt := array_push (errors (cl_logs st)) msg (cl_rt st)\<rparr>"

text \<open>Writing to \<^verbatim>\<open>this.claudeProcess.stdin\<close> inside a promise executor: an
  exception (no process, or a failing write) rejects the promise \<open>p\<close>.\<close>

definition cl_write :: "wire \<Rightarrow> nat \<Rightarrow> cl_service \<Rightarrow> cl_service" where
  "cl_write w p st =
     (case claudeProcess st of
        None \<Rightarrow> st\<lparr>cl_rt := settle p (Rejected ''TypeError'') (cl_rt st)\<rparr>
      | Some pid \<Rightarrow>
          (case write_error (cl_rt st) of
             None \<Rightarrow> st\<lparr>cl_rt := effect (Write pid w) (cl_rt st)\<rparr>
           | Some e \<Rightarrow> st\<lparr>cl_rt := settle p (Rejected e) (cl_rt st)\<rparr>))"

text \<open>\<^verbatim>\<open>_sendRequest(action, data, timeout = 10000)\<close>: not async, so the
  capacity check throws to the caller.\<close>

definition cl_sendRequest :: "string \<Rightarrow> (string \<times> json) list \<Rightarrow> int \<Rightarrow> cl_service \<Rightarrow> call_result \<times> cl_service" where
  "cl_sendRequest action data timeout st =
     (if \<not> cl_isReady st \<and> length (cl_requestQueue st) \<ge> cl_maxQueueSize st
      then (Throws ''Request queue is full'', st)
      else
        let (p, r0) = new_promise (cl_rt st) in
        if \<not> cl_isReady st
        then (Returns p,
              st\<lparr>cl_requestQueue := cl_requestQueue st @ [QueuedRequest action data p timeout],
                 cl_rt := r0\<rparr>)
        else
          let requestId = string_of_int (cl_requestId st + 1);
              request = spread [(''requestId'', JStr requestId), (''action'', JStr action)] data;
              (timer, r1) = set_timeout timeout (ClTimeout requestId p) r0;
              pending = AList.update requestId \<lparr>h_timer = timer, h_promise = p, h_prompt = False\<rparr>
                          (cl_pendingRequests st)
          in (Returns p,
              cl_write (JsonLine request) p
                (st\<lparr>cl_requestId := cl_requestId st + 1, cl_pendingRequests := pending, cl_rt := r1\<rparr>)))"

text \<open>\<^verbatim>\<open>async _sendPromptToClaudeCode(prompt, timeout = 10000)\<close>: async, so the
  capacity check rejects the returned promise.\<close>

definition cl_sendPromptToClaudeCode :: "string \<Rightarrow> int \<Rightarrow> cl_service \<Rightarrow> call_result \<times> cl_service" where
  "cl_sendPromptToClaudeCode prompt timeout st =
     (let (p, r0) = new_promise (cl_rt st) in
      if \<not> cl_isReady st \<and> length (cl_requestQueue st) \<ge> cl_maxQueueSize st
      then (Returns p, st\<lparr>cl_rt := settle p (Rejected ''Request queue is full'') r0\<rparr>)
      else if \<not> cl_isReady st
      then (Returns p,
            st\<lparr>cl_requestQueue := cl_requestQueue st @ [QueuedPrompt prompt p timeout],
               cl_rt := r0\<rparr>)
      else
        let requestId = string_of_int (cl_requestId st + 1);
            (timer, r1) = set_timeout timeout (ClTimeout requestId p) r0;
            pending = AList.update requestId \<lparr>h_timer = timer, h_promise = p, h_prompt = True\<rparr>
                        (cl_pendingRequests st)
        in (Returns p,
            cl_write (Raw (''REQUEST_ID:'' @ requestId @ [CHR 0x0A] @ prompt @ [CHR 0x0A]
                           @ ''---END_REQUEST---'' @ [CHR 0x0A])) p
              (st\<lparr>cl_requestId := cl_requestId st + 1, cl_pendingRequests := pending, cl_rt := r1\<rparr>)))"

text \<open>\<^verbatim>\<open>_processQueue()\<close>\<close>

fun cl_dispatch :: "cl_queued \<Rightarrow> cl_service \<Rightarrow> cl_service" where
  "cl_dispatch (QueuedPrompt prompt q timeout) st =
     (let (res, st1) = cl_sendPromptToClaudeCode prompt timeout st
      in st1\<lparr>cl_rt := forward_to q res (cl_rt st1)\<rparr>)"
| "cl_dispatch (QueuedRequest action data q timeout) st =
     (let (res, st1) = cl_sendRequest action data timeout st
      in st1\<lparr>cl_rt := forward_to q res (cl_rt st1)\<rparr>)"

function cl_processQueue :: "cl_service \<Rightarrow> cl_service" where
  "cl_processQueue st =
     (case cl_requestQueue st of
        [] \<Rightarrow> st
      | queuedRequest # rest \<Rightarrow>
          if \<not> cl_isReady st then st
          else cl_processQueue (cl_dispatch queuedRequest (st\<lparr>cl_requestQueue := rest\<rparr>)))"
  by pat_completeness auto
termination
  apply (relation "measure (\<lambda>st. length (cl_requestQueue st))")
   apply simp
  subgoal for st queuedRequest rest
    by (cases queuedRequest)
       (simp_all add: cl_sendRequest_def cl_sendPromptToClaudeCode_def cl_write_def Let_def
                 split: prod.splits option.splits)
  done

declare cl_processQueue.simps [simp del]

text \<open>\<^verbatim>\<open>async start()\<close>. The promise settles later: it is resolved by the stdout
  handler of the spawned process (\<open>cl_on_stdout\<close>) and rejected by its error handler
  (\<open>cl_on_error\<close>).\<close>

definition cl_start :: "cl_service \<Rightarrow> nat \<times> cl_service" where
  "cl_start st =
     (let (p, r0) = new_promise (cl_rt st) in
      if claudeProcess st \<noteq> None then (p, st\<lparr>cl_rt := settle p (Resolved JNull) r0\<rparr>)
      else (case spawn_error r0 of
              Some e \<Rightarrow> (p, st\<lparr>cl_rt := settle p (Rejected e) r0\<rparr>)
            | None \<Rightarrow>
                let (pid, r1) = spawn r0
                in (p, st\<lparr>claudeProcess := Some pid, cl_rt := r1,
                          cl_started_by := (pid, p) # cl_started_by st\<rparr>)))"

text \<open>The pieces of text handling that \<^verbatim>\<open>_handleClaudeResponse\<close> uses.\<close>

text \<open>\<^verbatim>\<open>content.match(/REQUEST_ID:(\d+)/)\<close>: the digits of the leftmost match.\<close>

fun find_request_id :: "string \<Rightarrow> string option" where
  "find_request_id [] = None"
| "find_request_id (c # cs) =
     (if take 11 (c # cs) = ''REQUEST_ID:'' \<and> takeWhile is_digit (drop 11 (c # cs)) \<noteq> []
      then Some (takeWhile is_digit (drop 11 (c # cs)))
      else find_request_id cs)"

text \<open>\<^verbatim>\<open>content.includes(sub)\<close>\<close>

fun str_includes :: "string \<Rightarrow> string \<Rightarrow> bool" where
  "str_includes [] sub = (sub = [])"
| "str_includes (c # cs) sub = (take (length sub) (c # cs) = sub \<or> str_includes cs sub)"

text \<open>\<^verbatim>\<open>lines.join('\n')\<close>\<close>

fun join_lines :: "string list \<Rightarrow> string" where
  "join_lines [] = []"
| "join_lines [l] = l"
| "join_lines (l # m # ls) = l @ [CHR 0x0A] @ join_lines (m # ls)"

text \<open>\<^verbatim>\<open>response.match(/\{[\s\S]*\}/)\<close>: from the first opening brace to the last
  closing brace after it.\<close>

definition json_match :: "string \<Rightarrow> string option" where
  "json_match s =
     (case dropWhile (\<lambda>c. c \<noteq> CHR ''{'') s of
        [] \<Rightarrow> None
      | b # body \<Rightarrow>
          if CHR ''}'' \<in> set body
          then Some (b # rev (dropWhile (\<lambda>c. c \<noteq> CHR ''}'') (rev body)))
          else None)"

text \<open>The resolve and reject closures of a pending entry. The resolve of a prompt
  entry runs the JSON extraction inside its own try block; a value that is not a
  string has no \<^verbatim>\<open>match\<close> method.\<close>

definition cl_resolve :: "(string \<Rightarrow> string + json) \<Rightarrow> cl_handlers \<Rightarrow> json \<Rightarrow> cl_callback runtime \<Rightarrow> cl_callback runtime" where
  "cl_resolve parse h response r =
     (let r1 = clear_timeout (h_timer h) r; p = h_promise h in
      if \<not> h_prompt h then settle p (Resolved response) r1
      else (case response of
              JStr s \<Rightarrow>
                (case json_match s of
                   None \<Rightarrow> settle p (Rejected ''No JSON found in Claude Code response'') r1
                 | Some m \<Rightarrow>
                     (case parse m of
                        Inr parsedResponse \<Rightarrow> settle p (Resolved parsedResponse) r1
                      | Inl msg \<Rightarrow>
                          settle p (Rejected (''Failed to parse Claude Code JSON response: '' @ msg)) r1))
            | _ \<Rightarrow>
                settle p (Rejected (''Failed to parse Claude Code JSON response: ''
                                    @ ''response.match is not a function'')) r1))"

definition cl_has :: "json option \<Rightarrow> cl_service \<Rightarrow> cl_handlers option" where
  "cl_has requestId st =
     (case requestId of
        Some (JStr s) \<Rightarrow> map_of (cl_pendingRequests st) s
      | _ \<Rightarrow> None)"

definition cl_delete :: "json option \<Rightarrow> cl_service \<Rightarrow> cl_service" where
  "cl_delete requestId st =
     (case requestId of
        Some (JStr s) \<Rightarrow> st\<lparr>cl_pendingRequests := AList.delete s (cl_pendingRequests st)\<rparr>
      | _ \<Rightarrow> st)"

text \<open>The body of the try block for one parsed line; the first component is the
  exception it throws, if any.\<close>

fun cl_json_response :: "(string \<Rightarrow> string + json) \<Rightarrow> json \<Rightarrow> cl_service \<Rightarrow> string option \<times> cl_service" where
  "cl_json_response parse JNull st = (Some ''TypeError'', st)"
| "cl_json_response parse (JObj response) st =
     (case (if opt_truthy (map_of response ''requestId'')
            then cl_has (map_of response ''requestId'') st else None) of
        None \<Rightarrow> (None, st)
      | Some h \<Rightarrow>
          (let st1 = cl_delete (map_of response ''requestId'') st
           in if opt_truthy (map_of response ''error'')
              then (None, st1\<lparr>cl_rt := reject_error h (map_of response ''error'') (cl_rt st1)\<rparr>)
              else (None, st1\<lparr>cl_rt := cl_resolve parse h (JObj (AList.delete ''requestId'' response)) (cl_rt st1)\<rparr>)))"
| "cl_json_response parse _ st = (None, st)"

text \<open>The catch block: log and emit \<^verbatim>\<open>'error'\<close>, unless the chunk mentions
  \<^verbatim>\<open>REQUEST_ID:\<close>. With no listener attached the emit throws, and that exception
  leaves the handler.\<close>

definition cl_catch :: "string \<Rightarrow> string \<Rightarrow> cl_service \<Rightarrow> string option \<times> cl_service" where
  "cl_catch content line st =
     (if \<not> str_includes content ''REQUEST_ID:''
      then (let st1 = cl_log_error (''Failed to parse response: '' @ line) st
            in (if error_listener (cl_rt st1)
                then (None, st1\<lparr>cl_rt := effect (Emit ''error'') (cl_rt st1)\<rparr>)
                else (Some ''Invalid response format'', st1)))
      else (None, st))"

definition cl_line :: "(string \<Rightarrow> string + json) \<Rightarrow> string \<Rightarrow> string \<Rightarrow> cl_service \<Rightarrow> string option \<times> cl_service" where
  "cl_line parse content line st =
     (case parse line of
        Inl _ \<Rightarrow> cl_catch content line st
      | Inr response \<Rightarrow>
          (case cl_json_response parse response st of
             (None, st1) \<Rightarrow> (None, st1)
           | (Some _, st1) \<Rightarrow> cl_catch content line st1))"

fun cl_lines :: "(string \<Rightarrow> string + json) \<Rightarrow> string \<Rightarrow> string list \<Rightarrow> cl_service \<Rightarrow> string option \<times> cl_service" where
  "cl_lines parse content [] st = (None, st)"
| "cl_lines parse content (line # rest) st =
     (case cl_line parse content line st of
        (None, st1) \<Rightarrow> cl_lines parse content rest st1
      | (Some exn, st1) \<Rightarrow> (Some exn, st1))"

text \<open>\<^verbatim>\<open>_handleClaudeResponse(data)\<close>\<close>

definition cl_handleClaudeResponse :: "(string \<Rightarrow> string + json) \<Rightarrow> string \<Rightarrow> cl_service \<Rightarrow> string option \<times> cl_service" where
  "cl_handleClaudeResponse parse content st =
     (case find_request_id content of
        Some requestId \<Rightarrow>
          (case map_of (cl_pendingRequests st) requestId of
             Some h \<Rightarrow>
               (let st1 = st\<lparr>cl_pendingRequests := AList.delete requestId (cl_pendingRequests st)\<rparr>;
                    responseContent = join_lines (tl (split_lines content))
                in (None, st1\<lparr>cl_rt := cl_resolve parse h (JStr responseContent) (cl_rt st1)\<rparr>))
           | None \<Rightarrow> (None, st))
      | None \<Rightarrow> cl_lines parse content (nonblank_lines content) st)"

text \<open>The stdout handler of process \<open>pid\<close>.\<close>

definition cl_on_stdout :: "(string \<Rightarrow> string + json) \<Rightarrow> nat \<Rightarrow> string \<Rightarrow> cl_service \<Rightarrow> string option \<times> cl_service" where
  "cl_on_stdout parse pid data st =
     (case cl_handleClaudeResponse parse data st of
        (Some exn, st1) \<Rightarrow> (Some exn, st1)
      | (None, st1) \<Rightarrow>
          if str_includes data ''Claude Code initialized'' \<and> \<not> cl_isReady st1
          then (let r1 = effect (Emit ''ready'') (cl_rt st1);
                    r2 = (case map_of (cl_started_by st1) pid of
                            Some p \<Rightarrow> settle p (Resolved JNull) r1
                          | None \<Rightarrow> r1)
                in (None, cl_processQueue (st1\<lparr>cl_isReady := True, cl_rt := r2\<rparr>)))
          else (None, st1))"


text \<open>The exit handler of process \<open>pid\<close>, followed by the \<^verbatim>\<open>once('exit')\<close>
  listeners that \<^verbatim>\<open>stop()\<close> attached to that process.\<close>

fun cl_run_exit_once :: "nat \<Rightarrow> (nat \<times> nat) list \<Rightarrow> cl_service \<Rightarrow> cl_service" where
  "cl_run_exit_once pid [] st = st"
| "cl_run_exit_once pid ((q, p) # rest) st =
     (if q = pid
      then cl_run_exit_once pid rest
             (let st1 = cl_reset st in st1\<lparr>cl_rt := settle p (Resolved JNull) (cl_rt st1)\<rparr>)
      else cl_run_exit_once pid rest st)"

definition cl_on_exit :: "nat \<Rightarrow> int option \<Rightarrow> cl_service \<Rightarrow> cl_service" where
  "cl_on_exit pid code st =
     (let st1 = st\<lparr>cl_isReady := False, claudeProcess := None\<rparr>;
          st2 = (if code \<noteq> Some 0 \<and> code \<noteq> None
                 then (let (t, r) = set_timeout 1000 ClRestart (effect (Emit ''crash'') (cl_rt st1))
                       in st1\<lparr>cl_rt := r\<rparr>)
                 else st1);
          listeners = cl_exit_once st2
      in cl_run_exit_once pid listeners
           (st2\<lparr>cl_exit_once := filter (\<lambda>(q, p). q \<noteq> pid) listeners\<rparr>))"

text \<open>\<^verbatim>\<open>async stop()\<close>\<close>

definition cl_stop :: "cl_service \<Rightarrow> nat \<times> cl_service" where
  "cl_stop st =
     (let (p, r0) = new_promise (cl_rt st) in
      case claudeProcess st of
        None \<Rightarrow> (p, st\<lparr>cl_rt := settle p (Resolved JNull) r0\<rparr>)
      | Some pid \<Rightarrow>
          let r1 = effect (Kill pid ''SIGTERM'') r0;
              (t, r2) = set_timeout 5000 (ForceKill p) r1
          in (p, st\<lparr>cl_exit_once := cl_exit_once st @ [(pid, p)], cl_rt := r2\<rparr>))"

text \<open>Running the callback of timer \<open>t\<close>, if it is still armed.\<close>

fun cl_run_callback :: "cl_callback \<Rightarrow> cl_service \<Rightarrow> cl_service" where
  "cl_run_callback (ClTimeout requestId p) st =
     (if map_of (cl_pendingRequests st) requestId \<noteq> None
      then st\<lparr>cl_pendingRequests := AList.delete requestId (cl_pendingRequests st),
              cl_rt := settle p (Rejected ''Request timeout'') (cl_rt st)\<rparr>
      else st)"
| "cl_run_callback ClRestart st = snd (cl_start st)"
| "cl_run_callback (ForceKill p) st =
     (case claudeProcess st of
        Some pid \<Rightarrow>
          (let st1 = cl_reset (st\<lparr>cl_rt := effect (Kill pid ''SIGKILL'') (cl_rt st)\<rparr>)
           in st1\<lparr>cl_rt := settle p (Resolved JNull) (cl_rt st1)\<rparr>)
      | None \<Rightarrow> st)"

definition cl_fire :: "nat \<Rightarrow> cl_service \<Rightarrow> cl_service" where
  "cl_fire t st =
     (case map_of (timers (cl_rt st)) t of
        None \<Rightarrow> st
      | Some (delay, f) \<Rightarrow> cl_run_callback f (st\<lparr>cl_rt := clear_timeout t (cl_rt st)\<rparr>))"

text \<open>\<^verbatim>\<open>getLogs()\<close> builds a new object with a copy of each array.\<close>

definition cl_getLogs :: "cl_service \<Rightarrow> logs \<times> cl_service" where
  "cl_getLogs st =
     (let (e, r1) = new_array (arrays (cl_rt st) (errors (cl_logs st))) (cl_rt st);
          (i, r2) = new_array (arrays r1 (info (cl_logs st))) r1
      in (\<lparr>errors = e, info = i\<rparr>, st\<lparr>cl_rt := r2\<rparr>))"

definition cl_clearLogs :: "cl_service \<Rightarrow> cl_service" where
  "cl_clearLogs st =
     (let (e, r1) = new_array [] (cl_rt st); (i, r2) = new_array [] r1
      in st\<lparr>cl_logs := \<lparr>errors = e, info = i\<rparr>, cl_rt := r2\<rparr>)"

section \<open>Calls made before readiness, and the frames they are sent as\<close>



text \<open>The same for the assistant bridge, whose calls are JSON requests
  (\<^verbatim>\<open>_sendRequest\<close>) or prompts (\<^verbatim>\<open>_sendPromptToClaudeCode\<close>).\<close>

datatype call = RequestCall string "(string \<times> json) list" int | PromptCall string int



fun cl_frames :: "int \<Rightarrow> call list \<Rightarrow> wire list" where
  "cl_frames requestId [] = []"
| "cl_frames requestId (RequestCall action data timeout # rest) =
     JsonLine (spread [(''requestId'', JStr (string_of_int (requestId + 1))),
                       (''action'', JStr action)] data)
     # cl_frames (requestId + 1) rest"
| "cl_frames requestId (PromptCall prompt timeout # rest) =
     Raw (''REQUEST_ID:'' @ string_of_int (requestId + 1) @ [CHR 0x0A] @ prompt @ [CHR 0x0A]
          @ ''---END_REQUEST---'' @ [CHR 0x0A])
     # cl_frames (requestId + 1) rest"


text \<open>What the router of the assistant bridge never touches: the process, readiness,
  the queue, the request counter, the environment and what was written to \<open>pid\<close>.\<close>

definition cl_core_unchanged :: "nat \<Rightarrow> cl_service \<Rightarrow> cl_service \<Rightarrow> bool" where
  "cl_core_unchanged pid st st' =
     (claudeProcess st' = claudeProcess st \<and> cl_isReady st' = cl_isReady st
      \<and> cl_requestQueue st' = cl_requestQueue st \<and> cl_requestId st' = cl_requestId st
      \<and> write_error (cl_rt st') = write_error (cl_rt st)
      \<and> written pid (cl_rt st') = written pid (cl_rt st)
      \<and> cl_started_by st' = cl_started_by st)"

section \<open>Example sessions\<close>

text \<open>Concrete sessions, for evaluating the bridges on explicit inputs.\<close>

definition py_fresh :: py_service where
  "py_fresh = py_constructor runtime0"

definition cl_fresh :: cl_service where
  "cl_fresh = cl_constructor runtime0"

definition status_request :: "(string \<times> json) list" where
  "status_request = [(''action'', JStr ''status'')]"

text \<open>\<open>n\<close> calls of \<^verbatim>\<open>getStatus()\<close> in a row, on either bridge.\<close>

primrec py_status_calls :: "nat \<Rightarrow> py_service \<Rightarrow> py_service" where
  "py_status_calls 0 st = st"
| "py_status_calls (Suc n) st = snd (py_sendRequest status_request 10000 (py_status_calls n st))"

primrec cl_status_calls :: "nat \<Rightarrow> cl_service \<Rightarrow> cl_service" where
  "cl_status_calls 0 st = st"
| "cl_status_calls (Suc n) st = snd (cl_sendRequest ''getStatus'' [] 5000 (cl_status_calls n st))"

text \<open>A started speech bridge; a \<^verbatim>\<open>JSON.parse\<close> for chunks that hold no JSON;
  the assistant bridge after \<^verbatim>\<open>start()\<close>, and after its banner has been read.\<close>

definition py_started :: py_service where
  "py_started = snd (py_start py_fresh)"

definition parse_nothing :: "string \<Rightarrow> string + json" where
  "parse_nothing line = Inl ''SyntaxError''"

definition cl_started :: cl_service where
  "cl_started = snd (cl_start cl_fresh)"

definition cl_ready :: cl_service where
  "cl_ready = snd (cl_on_stdout parse_nothing 0 ''Claude Code initialized'' cl_started)"

text \<open>Response lines of the two children, and \<^verbatim>\<open>JSON.parse\<close> on these lines.\<close>

definition py_error_line :: string where
  \<open>py_error_line = ''{"requestId":1,"error":"Microphone not found"}''\<close>

definition audio_error_line :: string where
  \<open>audio_error_line = ''{"requestId":1,"error":"Audio format not supported"}''\<close>

definition py_success_line :: string where
  \<open>py_success_line = ''{"requestId":1,"status":"ok"}''\<close>

definition py_late_line :: string where
  \<open>py_late_line = ''{"requestId":7,"status":"ok"}''\<close>

definition cl_error_line :: string where
  \<open>cl_error_line = ''{"requestId":"1","error":"Session expired"}''\<close>

definition cl_success_line :: string where
  \<open>cl_success_line = ''{"requestId":"1","isReady":true}''\<close>

definition cl_late_line :: string where
  \<open>cl_late_line = ''{"requestId":"7","isReady":true}''\<close>

definition parse_example :: "string \<Rightarrow> string + json" where
  "parse_example line =
     (if line = py_error_line
      then Inr (JObj [(''requestId'', JNum 1), (''error'', JStr ''Microphone not found'')])
      else if line = audio_error_line
      then Inr (JObj [(''requestId'', JNum 1), (''error'', JStr ''Audio format not supported'')])
      else if line = py_success_line
      then Inr (JObj [(''requestId'', JNum 1), (''status'', JStr ''ok'')])
      else if line = py_late_line
      then Inr (JObj [(''requestId'', JNum 7), (''status'', JStr ''ok'')])
      else if line = cl_error_line
      then Inr (JObj [(''requestId'', JStr ''1''), (''error'', JStr ''Session expired'')])
      else if line = cl_success_line
      then Inr (JObj [(''requestId'', JStr ''1''), (''isReady'', JBool True)])
      else if line = cl_late_line
      then Inr (JObj [(''requestId'', JStr ''7''), (''isReady'', JBool True)])
      else Inl ''SyntaxError'')"

text \<open>Sessions with one request in flight.\<close>

definition recognize_request :: "(string \<times> json) list" where
  "recognize_request = [(''action'', JStr ''recognize''), (''audioData'', JStr ''AAAA'')]"

definition py_recognize_pending :: py_service where
  "py_recognize_pending = snd (py_sendRequest recognize_request 5000 py_started)"

definition py_status_pending :: py_service where
  "py_status_pending = snd (py_sendRequest status_request 10000 py_started)"

definition cl_status_pending :: cl_service where
  "cl_status_pending = snd (cl_sendRequest ''getStatus'' [] 5000 cl_ready)"

definition cl_prompt_pending :: cl_service where
  "cl_prompt_pending = snd (cl_sendPromptToClaudeCode ''Ask one question'' 10000 cl_ready)"








text \<open>The assistant bridge with \<^verbatim>\<open>getStatus()\<close> in flight, then \<^verbatim>\<open>stop()\<close>, then
  the exit of the process on SIGTERM (exit code null); and the same with the call
  made before the banner, so that it is queued.\<close>

definition cl_stopped_in_flight :: cl_service where
  "cl_stopped_in_flight = cl_on_exit 0 None (snd (cl_stop cl_status_pending))"

definition cl_status_queued :: cl_service where
  "cl_status_queued = snd (cl_sendRequest ''getStatus'' [] 5000 cl_started)"

definition cl_stopped_queued :: cl_service where
  "cl_stopped_queued = cl_on_exit 0 None (snd (cl_stop cl_status_queued))"

section \<open>What a caller can do to a log snapshot\<close>

text \<open>
  The object returned by \<^verbatim>\<open>getLogs()\<close> has two properties, each a reference to
  an array. A caller can push onto one of the arrays, change its contents in place in
  any other way (\<^verbatim>\<open>pop\<close>, \<^verbatim>\<open>splice\<close>, \<^verbatim>\<open>length = 0\<close>, an index
  assignment), or point the property to a new array.
\<close>

datatype log_field = ErrorsField | InfoField

datatype mutation =
    Push log_field string
  | Overwrite log_field "string list"
  | Assign log_field "string list"

fun field_ref :: "log_field \<Rightarrow> logs \<Rightarrow> nat" where
  "field_ref ErrorsField l = errors l"
| "field_ref InfoField l = info l"

fun set_field :: "log_field \<Rightarrow> nat \<Rightarrow> logs \<Rightarrow> logs" where
  "set_field ErrorsField a l = l\<lparr>errors := a\<rparr>"
| "set_field InfoField a l = l\<lparr>info := a\<rparr>"

fun mutate :: "mutation \<Rightarrow> logs \<times> 'cb runtime \<Rightarrow> logs \<times> 'cb runtime" where
  "mutate (Push f x) (snapshot, r) = (snapshot, array_push (field_ref f snapshot) x r)"
| "mutate (Overwrite f xs) (snapshot, r) =
     (snapshot, r\<lparr>arrays := (arrays r)(field_ref f snapshot := xs)\<rparr>)"
| "mutate (Assign f xs) (snapshot, r) =
     (let (a, r1) = new_array xs r in (set_field f a snapshot, r1))"

text \<open>The contents of the two arrays that a logs object refers to.\<close>

definition log_contents :: "logs \<Rightarrow> 'cb runtime \<Rightarrow> string list \<times> string list" where
  "log_contents l r = (arrays r (errors l), arrays r (info l))"

section \<open>Facts about the runtime\<close>



lemma settle_shape: "\<exists>f. settle p s r = r\<lparr>promises := f\<rparr>"
proof (induction p s r rule: settle.induct)
  case (1 p s r)
  have triv: "\<exists>f. r = r\<lparr>promises := f\<rparr>"
    by (rule exI[of _ "promises r"]) simp
  have upd: "\<And>g h. \<exists>f. (r\<lparr>promises := g\<rparr>)\<lparr>promises := h\<rparr> = r\<lparr>promises := f\<rparr>"
    by (rule_tac x=h in exI) simp
  show ?case
  proof (cases "promises r p \<noteq> Unsettled")
    case True
    then show ?thesis using triv by (subst settle.simps) simp
  next
    case False
    show ?thesis
    proof (cases "continuations r p")
      case None
      with False show ?thesis by (subst settle.simps) auto
    next
      case (Some k)
      show ?thesis
      proof (cases k)
        case (Forward q)
        show ?thesis
        proof (cases "q < p")
          case True
          from "1.IH"(1)[OF False Some Forward True] obtain f where
            "settle q s (r\<lparr>promises := (promises r)(p := s)\<rparr>) = (r\<lparr>promises := (promises r)(p := s)\<rparr>)\<lparr>promises := f\<rparr>" by blast
          with False Some Forward True upd show ?thesis
            by (subst settle.simps) simp
        next
          case F: False
          with False Some Forward show ?thesis by (subst settle.simps) auto
        qed
      next
        case (Synthesize q)
        show ?thesis
        proof (cases "q < p")
          case True
          from "1.IH"(2)[OF False Some Synthesize True] obtain f where
            "settle q (synthesize_after s) (r\<lparr>promises := (promises r)(p := s)\<rparr>) = (r\<lparr>promises := (promises r)(p := s)\<rparr>)\<lparr>promises := f\<rparr>" by blast
          with False Some Synthesize True upd show ?thesis
            by (subst settle.simps) simp
        next
          case F: False
          with False Some Synthesize show ?thesis by (subst settle.simps) auto
        qed
      qed
    qed
  qed
qed

lemma settle_fresh:
  "promises r p = Unsettled \<Longrightarrow> continuations r p = None \<Longrightarrow>
   settle p s r = r\<lparr>promises := (promises r)(p := s)\<rparr>"
  by (subst settle.simps) simp

lemma settle_new_promise:
  "new_promise r = (p, r0) \<Longrightarrow> settle p s r0 = r0\<lparr>promises := (promises r0)(p := s)\<rparr>"
  by (rule settle_fresh) (auto simp: new_promise_def)

lemma dropWhile_all: "(\<forall>x\<in>set (dropWhile P s). P x) = (\<forall>x\<in>set s. P x)"
  by (induction s) auto

lemma trim_empty_iff: "trim s = [] \<longleftrightarrow> list_all is_space s"
  by (simp add: trim_def list_all_iff dropWhile_all)

lemma text_rejected_iff:
  "text_rejected text \<longleftrightarrow>
     (text = JStr [] \<or> (\<forall>s. text \<noteq> JStr s) \<or> (\<exists>s. text = JStr s \<and> list_all is_space s))"
  by (cases "text") (auto simp: text_rejected_def typeof_string_def string_value_def trim_empty_iff)

lemma settle_timers [simp]: "timers (settle p s r) = timers r"
  and settle_trace [simp]: "trace (settle p s r) = trace r"
  and settle_arrays [simp]: "arrays (settle p s r) = arrays r"
  and settle_continuations [simp]: "continuations (settle p s r) = continuations r"
  and settle_next_promise [simp]: "next_promise (settle p s r) = next_promise r"
  and settle_next_timer [simp]: "next_timer (settle p s r) = next_timer r"
  and settle_next_array [simp]: "next_array (settle p s r) = next_array r"
  and settle_next_pid [simp]: "next_pid (settle p s r) = next_pid r"
  and settle_spawn_error [simp]: "spawn_error (settle p s r) = spawn_error r"
  and settle_write_error [simp]: "write_error (settle p s r) = write_error r"
  and settle_error_listener [simp]: "error_listener (settle p s r) = error_listener r"
proof -
  obtain f where "settle p s r = r\<lparr>promises := f\<rparr>" using settle_shape by blast
  then show "timers (settle p s r) = timers r" "trace (settle p s r) = trace r"
    "arrays (settle p s r) = arrays r" "continuations (settle p s r) = continuations r"
    "next_promise (settle p s r) = next_promise r" "next_timer (settle p s r) = next_timer r"
    "next_array (settle p s r) = next_array r" "next_pid (settle p s r) = next_pid r"
    "spawn_error (settle p s r) = spawn_error r" "write_error (settle p s r) = write_error r"
    "error_listener (settle p s r) = error_listener r"
    by simp_all
qed

lemma settle_settled: "promises r p \<noteq> Unsettled \<Longrightarrow> settle p s r = r"
  by (subst settle.simps) simp

text \<open>Only the first settlement of a promise has an effect.\<close>

lemma settle_once: "promises r x \<noteq> Unsettled \<Longrightarrow> promises (settle p s r) x = promises r x"
proof (induction p s r rule: settle.induct)
  case (1 p s r)
  show ?case
  proof (cases "promises r p = Unsettled")
    case False
    then show ?thesis by (simp add: settle_settled)
  next
    case True
    with "1.prems" have xp: "x \<noteq> p" by auto
    let ?r = "r\<lparr>promises := (promises r)(p := s)\<rparr>"
    from xp "1.prems" have keep: "promises ?r x \<noteq> Unsettled" "promises ?r x = promises r x" by simp_all
    show ?thesis
    proof (cases "continuations r p")
      case None
      with True xp show ?thesis by (subst settle.simps) simp
    next
      case (Some k)
      show ?thesis
      proof (cases k)
        case (Forward q)
        with True Some "1.IH"(1)[of k q] keep xp show ?thesis
          by (subst settle.simps) simp
      next
        case (Synthesize q)
        with True Some "1.IH"(2)[of k q] keep xp show ?thesis
          by (subst settle.simps) simp
      qed
    qed
  qed
qed

text \<open>Settling \<open>p\<close> leaves every promise created after \<open>p\<close> alone.\<close>

lemma settle_above: "p < x \<Longrightarrow> promises (settle p s r) x = promises r x"
proof (induction p s r rule: settle.induct)
  case (1 p s r)
  show ?case
  proof (cases "promises r p = Unsettled")
    case False
    then show ?thesis by (simp add: settle_settled)
  next
    case True
    from "1.prems" have xp: "x \<noteq> p" by auto
    show ?thesis
    proof (cases "continuations r p")
      case None
      with True xp show ?thesis by (subst settle.simps) simp
    next
      case (Some k)
      show ?thesis
      proof (cases k)
        case (Forward q)
        with True Some "1.IH"(1)[of k q] "1.prems" xp show ?thesis
          by (subst settle.simps) simp
      next
        case (Synthesize q)
        with True Some "1.IH"(2)[of k q] "1.prems" xp show ?thesis
          by (subst settle.simps) simp
      qed
    qed
  qed
qed

lemma settle_self: "promises r p = Unsettled \<Longrightarrow> promises (settle p s r) p = s"
proof -
  assume u: "promises r p = Unsettled"
  show ?thesis
  proof (cases "continuations r p")
    case None
    with u show ?thesis by (subst settle.simps) simp
  next
    case (Some k)
    show ?thesis
    proof (cases k)
      case (Forward q)
      with u Some show ?thesis by (subst settle.simps) (simp add: settle_above)
    next
      case (Synthesize q)
      with u Some show ?thesis by (subst settle.simps) (simp add: settle_above)
    qed
  qed
qed

lemma settle_not_unsettled: "s \<noteq> Unsettled \<Longrightarrow> promises (settle p s r) p \<noteq> Unsettled"
  by (cases "promises r p = Unsettled") (simp_all add: settle_self settle_settled)

text \<open>A rejection changes promises only from unsettled to that rejection.\<close>

lemma synthesize_after_Rejected [simp]: "synthesize_after (Rejected m) = Rejected m"
  by (simp add: synthesize_after_def)

lemma settle_Rejected:
  "promises (settle p (Rejected m) r) x = promises r x
   \<or> (promises r x = Unsettled \<and> promises (settle p (Rejected m) r) x = Rejected m)"
proof (induction p "Rejected m" r rule: settle.induct)
  case (1 p r)
  show ?case
  proof (cases "promises r p = Unsettled")
    case False
    then show ?thesis by (simp add: settle_settled)
  next
    case True
    let ?r = "r\<lparr>promises := (promises r)(p := Rejected m)\<rparr>"
    show ?thesis
    proof (cases "continuations r p")
      case None
      with True show ?thesis by (subst (1 2) settle.simps) simp
    next
      case (Some k)
      show ?thesis
      proof (cases k)
        case (Forward q)
        show ?thesis
        proof (cases "q < p")
          case lt: True
          have eq: "settle p (Rejected m) r = settle q (Rejected m) ?r"
            using True Some Forward lt by (subst settle.simps) simp
          from "1.hyps"(1)[OF _ Some Forward lt] True
          have "promises (settle q (Rejected m) ?r) x = promises ?r x
                \<or> (promises ?r x = Unsettled \<and> promises (settle q (Rejected m) ?r) x = Rejected m)"
            by simp
          with True show ?thesis unfolding eq by (cases "x = p") auto
        next
          case False
          with True Some Forward show ?thesis by (subst (1 2) settle.simps) simp
        qed
      next
        case (Synthesize q)
        show ?thesis
        proof (cases "q < p")
          case lt: True
          have eq: "settle p (Rejected m) r = settle q (Rejected m) ?r"
            using True Some Synthesize lt by (subst settle.simps) simp
          from "1.hyps"(2)[OF _ Some Synthesize lt] True
          have "promises (settle q (Rejected m) ?r) x = promises ?r x
                \<or> (promises ?r x = Unsettled \<and> promises (settle q (Rejected m) ?r) x = Rejected m)"
            by simp
          with True show ?thesis unfolding eq by (cases "x = p") auto
        next
          case False
          with True Some Synthesize show ?thesis by (subst (1 2) settle.simps) simp
        qed
      qed
    qed
  qed
qed

section \<open>The guard of synthesizeSpeech\<close>

text \<open>
  Claim C10. For every input text that is empty, not a string, or only white space,
  \<^verbatim>\<open>synthesizeSpeech\<close> fails at once with the error "Text cannot be empty":
  the promise it returns is rejected with that message, and nothing is queued, no
  request id is assigned, no pending entry or timer is created and nothing is written
  to the subprocess.
\<close>

theorem synthesizeSpeech_rejects_empty_text:
  assumes "text = JStr [] \<or> (\<forall>s. text \<noteq> JStr s) \<or> (\<exists>s. text = JStr s \<and> list_all is_space s)"
  shows "fst (py_synthesizeSpeech text config st) = Returns (next_promise (py_rt st))
       \<and> promises (py_rt (snd (py_synthesizeSpeech text config st))) (next_promise (py_rt st))
           = Rejected ''Text cannot be empty''
       \<and> py_requestQueue (snd (py_synthesizeSpeech text config st)) = py_requestQueue st
       \<and> py_requestId (snd (py_synthesizeSpeech text config st)) = py_requestId st
       \<and> py_pendingRequests (snd (py_synthesizeSpeech text config st)) = py_pendingRequests st
       \<and> timers (py_rt (snd (py_synthesizeSpeech text config st))) = timers (py_rt st)
       \<and> trace (py_rt (snd (py_synthesizeSpeech text config st))) = trace (py_rt st)"
proof -
  from assms have rej: "text_rejected text" by (simp add: text_rejected_iff)
  obtain p r0 where np: "new_promise (py_rt st) = (p, r0)" by (cases "new_promise (py_rt st)")
  then have p: "p = next_promise (py_rt st)" by (auto simp: new_promise_def)
  have res: "py_synthesizeSpeech text config st
               = (Returns p, st\<lparr>py_rt := r0\<lparr>promises := (promises r0)(p := Rejected ''Text cannot be empty'')\<rparr>\<rparr>)"
    using rej np by (simp add: py_synthesizeSpeech_def settle_new_promise)
  from np have "timers r0 = timers (py_rt st)" "trace r0 = trace (py_rt st)"
    by (auto simp: new_promise_def)
  with res p show ?thesis by simp
qed

theorem synthesizeSpeech_rejects_empty_text_witness:
  "list_all is_space ''  ''
   \<and> fst (py_synthesizeSpeech (JStr ''  '') [] (py_constructor runtime0)) = Returns 0
   \<and> promises (py_rt (snd (py_synthesizeSpeech (JStr ''  '') [] (py_constructor runtime0)))) 0
        = Rejected ''Text cannot be empty''
   \<and> py_requestQueue (snd (py_synthesizeSpeech (JStr ''  '') [] (py_constructor runtime0))) = []
   \<and> trace (py_rt (snd (py_synthesizeSpeech (JStr ''  '') [] (py_constructor runtime0)))) = []"
proof -
  have ws: "list_all is_space ''  ''" by (simp add: is_space_def)
  have st0: "next_promise (py_rt (py_constructor runtime0)) = 0"
    "py_requestQueue (py_constructor runtime0) = []"
    "trace (py_rt (py_constructor runtime0)) = []"
    by (simp_all add: py_constructor_def runtime0_def new_array_def)
  from ws have h: "JStr ''  '' = JStr [] \<or> (\<forall>s. JStr ''  '' \<noteq> JStr s) \<or> (\<exists>s. JStr ''  '' = JStr s \<and> list_all is_space s)"
    by blast
  show ?thesis
    using synthesizeSpeech_rejects_empty_text [OF h, of "[]" "py_constructor runtime0"] ws st0
    by simp
qed

section \<open>Sessions used as concrete inputs\<close>

lemma py_status_calls_queue:
  "\<not> py_isRunning st \<Longrightarrow> length (py_requestQueue st) + n \<le> py_maxQueueSize st \<Longrightarrow>
   length (py_requestQueue (py_status_calls n st)) = length (py_requestQueue st) + n
   \<and> \<not> py_isRunning (py_status_calls n st)
   \<and> py_maxQueueSize (py_status_calls n st) = py_maxQueueSize st"
  by (induction n) (auto simp: py_sendRequest_def py_isRunning_def Let_def split: prod.splits)

lemma cl_status_calls_queue:
  "\<not> cl_isReady st \<Longrightarrow> length (cl_requestQueue st) + n \<le> cl_maxQueueSize st \<Longrightarrow>
   length (cl_requestQueue (cl_status_calls n st)) = length (cl_requestQueue st) + n
   \<and> \<not> cl_isReady (cl_status_calls n st)
   \<and> cl_maxQueueSize (cl_status_calls n st) = cl_maxQueueSize st"
  by (induction n) (auto simp: cl_sendRequest_def Let_def split: prod.splits)

lemma py_sendRequest_next_promise:
  "next_promise (py_rt (snd (py_sendRequest request timeout st))) = Suc (next_promise (py_rt st))"
  by (simp add: py_sendRequest_def py_write_failed_def new_promise_def set_timeout_def effect_def clear_timeout_def Let_def
           split: prod.splits option.splits)

lemma py_status_calls_next_promise:
  "next_promise (py_rt (py_status_calls n st)) = next_promise (py_rt st) + n"
  by (induction n) (simp_all add: py_sendRequest_next_promise)

lemma py_fresh_fields [simp]:
  "pythonProcess py_fresh = None" "py_isReady py_fresh = False" "py_requestQueue py_fresh = []"
  "py_pendingRequests py_fresh = []" "py_requestId py_fresh = 0" "py_maxQueueSize py_fresh = 10"
  "next_promise (py_rt py_fresh) = 0" "timers (py_rt py_fresh) = []" "trace (py_rt py_fresh) = []"
  "next_timer (py_rt py_fresh) = 0" "next_pid (py_rt py_fresh) = 0"
  "spawn_error (py_rt py_fresh) = None" "write_error (py_rt py_fresh) = None"
  by (simp_all add: py_fresh_def py_constructor_def new_array_def runtime0_def Let_def)

lemma cl_fresh_fields [simp]:
  "claudeProcess cl_fresh = None" "cl_isReady cl_fresh = False" "cl_requestQueue cl_fresh = []"
  "cl_pendingRequests cl_fresh = []" "cl_requestId cl_fresh = 0" "cl_maxQueueSize cl_fresh = 10"
  "next_promise (cl_rt cl_fresh) = 0" "timers (cl_rt cl_fresh) = []" "trace (cl_rt cl_fresh) = []"
  "next_timer (cl_rt cl_fresh) = 0" "next_pid (cl_rt cl_fresh) = 0"
  "spawn_error (cl_rt cl_fresh) = None" "write_error (cl_rt cl_fresh) = None"
  "cl_started_by cl_fresh = []" "cl_exit_once cl_fresh = []" "error_listener (cl_rt cl_fresh)"
  by (simp_all add: cl_fresh_def cl_constructor_def new_array_def runtime0_def Let_def)

lemma py_full:
  "length (py_requestQueue (py_status_calls 10 py_fresh)) = 10"
  "\<not> py_isRunning (py_status_calls 10 py_fresh)"
  "py_maxQueueSize (py_status_calls 10 py_fresh) = 10"
  "next_promise (py_rt (py_status_calls 10 py_fresh)) = 10"
  using py_status_calls_queue[of py_fresh 10] py_status_calls_next_promise[of 10 py_fresh]
  by (simp_all add: py_isRunning_def)

lemma cl_full:
  "length (cl_requestQueue (cl_status_calls 10 cl_fresh)) = 10"
  "\<not> cl_isReady (cl_status_calls 10 cl_fresh)"
  "cl_maxQueueSize (cl_status_calls 10 cl_fresh) = 10"
  using cl_status_calls_queue[of cl_fresh 10] by simp_all

lemma py_queue_full_rejects:
  assumes "\<not> py_isRunning ps" and "py_maxQueueSize ps \<le> length (py_requestQueue ps)"
  shows "fst (py_sendRequest request timeout ps) = Returns (next_promise (py_rt ps))"
    and "promises (py_rt (snd (py_sendRequest request timeout ps))) (next_promise (py_rt ps))
          = Rejected ''Request queue full''"
    and "py_requestQueue (snd (py_sendRequest request timeout ps)) = py_requestQueue ps"
    and "\<forall>x. x \<noteq> next_promise (py_rt ps) \<longrightarrow>
            promises (py_rt (snd (py_sendRequest request timeout ps))) x = promises (py_rt ps) x"
proof -
  obtain p r0 where np: "new_promise (py_rt ps) = (p, r0)" by (cases "new_promise (py_rt ps)")
  then have p: "p = next_promise (py_rt ps)"
    and r0: "\<forall>x. x \<noteq> p \<longrightarrow> promises r0 x = promises (py_rt ps) x"
    by (auto simp: new_promise_def)
  from assms np have res: "py_sendRequest request timeout ps
      = (Returns p, ps\<lparr>py_rt := r0\<lparr>promises := (promises r0)(p := Rejected ''Request queue full'')\<rparr>\<rparr>)"
    by (simp add: py_sendRequest_def settle_new_promise)
  from res p show "fst (py_sendRequest request timeout ps) = Returns (next_promise (py_rt ps))" by simp
  from res p show "promises (py_rt (snd (py_sendRequest request timeout ps))) (next_promise (py_rt ps))
          = Rejected ''Request queue full''" by simp
  from res show "py_requestQueue (snd (py_sendRequest request timeout ps)) = py_requestQueue ps" by simp
  from res p r0 show "\<forall>x. x \<noteq> next_promise (py_rt ps) \<longrightarrow>
            promises (py_rt (snd (py_sendRequest request timeout ps))) x = promises (py_rt ps) x" by simp
qed

section \<open>The bounded queue\<close>

text \<open>
  Claim C4, as amended. A request made while the bridge is not ready (the assistant
  bridge) or not running (the speech bridge) and the queue holds at least
  \<^verbatim>\<open>maxQueueSize\<close> entries (10 from the constructor) fails at once with a
  queue-full error and leaves the queue as it was: \<^verbatim>\<open>_sendRequest\<close> of the
  assistant bridge throws "Request queue is full" to its caller and changes nothing;
  \<^verbatim>\<open>sendRequest\<close> of the speech bridge, an async function, returns a promise
  already rejected with "Request queue full" and settles no other promise. No call of
  \<^verbatim>\<open>sendRequest\<close>, \<^verbatim>\<open>_sendRequest\<close> or \<^verbatim>\<open>_sendPromptToClaudeCode\<close> makes a
  queue that is within its bound exceed it.
\<close>

theorem queue_full_fails_that_call:
  "(\<not> cl_isReady cs \<and> cl_maxQueueSize cs \<le> length (cl_requestQueue cs) \<longrightarrow>
      cl_sendRequest action data timeout cs = (Throws ''Request queue is full'', cs))
   \<and> (\<not> py_isRunning ps \<and> py_maxQueueSize ps \<le> length (py_requestQueue ps) \<longrightarrow>
      fst (py_sendRequest request ptimeout ps) = Returns (next_promise (py_rt ps))
      \<and> promises (py_rt (snd (py_sendRequest request ptimeout ps))) (next_promise (py_rt ps))
          = Rejected ''Request queue full''
      \<and> py_requestQueue (snd (py_sendRequest request ptimeout ps)) = py_requestQueue ps
      \<and> (\<forall>x. x \<noteq> next_promise (py_rt ps) \<longrightarrow>
            promises (py_rt (snd (py_sendRequest request ptimeout ps))) x = promises (py_rt ps) x))
   \<and> (length (cl_requestQueue cs) \<le> cl_maxQueueSize cs \<longrightarrow>
      length (cl_requestQueue (snd (cl_sendRequest action data timeout cs)))
        \<le> cl_maxQueueSize (snd (cl_sendRequest action data timeout cs))
      \<and> length (cl_requestQueue (snd (cl_sendPromptToClaudeCode prompt timeout cs)))
        \<le> cl_maxQueueSize (snd (cl_sendPromptToClaudeCode prompt timeout cs)))
   \<and> (length (py_requestQueue ps) \<le> py_maxQueueSize ps \<longrightarrow>
      length (py_requestQueue (snd (py_sendRequest request ptimeout ps)))
        \<le> py_maxQueueSize (snd (py_sendRequest request ptimeout ps)))
   \<and> cl_maxQueueSize (cl_constructor r) = 10 \<and> py_maxQueueSize (py_constructor r') = 10"
proof -
  have cl_throw: "\<not> cl_isReady cs \<and> cl_maxQueueSize cs \<le> length (cl_requestQueue cs) \<longrightarrow>
      cl_sendRequest action data timeout cs = (Throws ''Request queue is full'', cs)"
    by (simp add: cl_sendRequest_def)
  have py_reject: "\<not> py_isRunning ps \<and> py_maxQueueSize ps \<le> length (py_requestQueue ps) \<longrightarrow>
      fst (py_sendRequest request ptimeout ps) = Returns (next_promise (py_rt ps))
      \<and> promises (py_rt (snd (py_sendRequest request ptimeout ps))) (next_promise (py_rt ps))
          = Rejected ''Request queue full''
      \<and> py_requestQueue (snd (py_sendRequest request ptimeout ps)) = py_requestQueue ps
      \<and> (\<forall>x. x \<noteq> next_promise (py_rt ps) \<longrightarrow>
            promises (py_rt (snd (py_sendRequest request ptimeout ps))) x = promises (py_rt ps) x)"
    using py_queue_full_rejects [of ps request ptimeout] by blast
  have cl_bound: "length (cl_requestQueue cs) \<le> cl_maxQueueSize cs \<longrightarrow>
      length (cl_requestQueue (snd (cl_sendRequest action data timeout cs)))
        \<le> cl_maxQueueSize (snd (cl_sendRequest action data timeout cs))
      \<and> length (cl_requestQueue (snd (cl_sendPromptToClaudeCode prompt timeout cs)))
        \<le> cl_maxQueueSize (snd (cl_sendPromptToClaudeCode prompt timeout cs))"
    by (simp add: cl_sendRequest_def cl_sendPromptToClaudeCode_def cl_write_def Let_def
             split: prod.splits option.splits)
  have py_bound: "length (py_requestQueue ps) \<le> py_maxQueueSize ps \<longrightarrow>
      length (py_requestQueue (snd (py_sendRequest request ptimeout ps)))
        \<le> py_maxQueueSize (snd (py_sendRequest request ptimeout ps))"
    by (simp add: py_sendRequest_def py_write_failed_def Let_def split: prod.splits option.splits)
  have ten: "cl_maxQueueSize (cl_constructor r) = 10 \<and> py_maxQueueSize (py_constructor r') = 10"
    by (simp add: cl_constructor_def py_constructor_def Let_def split: prod.splits)
  show ?thesis by (intro conjI cl_throw py_reject cl_bound py_bound ten)
qed

theorem queue_full_fails_that_call_witness:
  "(\<not> cl_isReady (cl_status_calls 10 cl_fresh)
     \<and> cl_maxQueueSize (cl_status_calls 10 cl_fresh) \<le> length (cl_requestQueue (cl_status_calls 10 cl_fresh)))
   \<and> cl_sendRequest ''getStatus'' [] 5000 (cl_status_calls 10 cl_fresh)
       = (Throws ''Request queue is full'', cl_status_calls 10 cl_fresh)
   \<and> (\<not> py_isRunning (py_status_calls 10 py_fresh)
     \<and> py_maxQueueSize (py_status_calls 10 py_fresh) \<le> length (py_requestQueue (py_status_calls 10 py_fresh)))
   \<and> fst (py_sendRequest status_request 10000 (py_status_calls 10 py_fresh)) = Returns 10
   \<and> promises (py_rt (snd (py_sendRequest status_request 10000 (py_status_calls 10 py_fresh)))) 10
       = Rejected ''Request queue full''
   \<and> length (cl_requestQueue (cl_status_calls 10 cl_fresh)) \<le> cl_maxQueueSize (cl_status_calls 10 cl_fresh)
   \<and> length (py_requestQueue (py_status_calls 10 py_fresh)) \<le> py_maxQueueSize (py_status_calls 10 py_fresh)
   \<and> length (cl_requestQueue (snd (cl_sendPromptToClaudeCode ''Ask one question'' 5000
                                       (cl_status_calls 10 cl_fresh))))
       \<le> cl_maxQueueSize (snd (cl_sendPromptToClaudeCode ''Ask one question'' 5000
                                  (cl_status_calls 10 cl_fresh)))
   \<and> length (py_requestQueue (snd (py_sendRequest status_request 10000 (py_status_calls 10 py_fresh)))) \<le> 10"
  using queue_full_fails_that_call
          [where cs = "cl_status_calls 10 cl_fresh" and action = "''getStatus''" and data = "[]"
             and timeout = 5000 and prompt = "''Ask one question''"
             and ps = "py_status_calls 10 py_fresh"
             and request = status_request and ptimeout = 10000]
        py_full cl_full
  by simp

text \<open>The claim as stated fails on the speech bridge: with ten calls queued, the
  eleventh call does not throw; it returns promise 10, already rejected.\<close>

theorem py_queue_full_is_a_rejection:
  "\<not> py_isRunning (py_status_calls 10 py_fresh)
   \<and> length (py_requestQueue (py_status_calls 10 py_fresh)) = 10
   \<and> fst (py_sendRequest status_request 10000 (py_status_calls 10 py_fresh)) = Returns 10
   \<and> fst (py_sendRequest status_request 10000 (py_status_calls 10 py_fresh)) \<noteq> Throws ''Request queue full''
   \<and> promises (py_rt (snd (py_sendRequest status_request 10000 (py_status_calls 10 py_fresh)))) 10
        = Rejected ''Request queue full''"
  using py_full py_queue_full_rejects [of "py_status_calls 10 py_fresh" status_request 10000]
  by simp

lemma py_started_fields [simp]:
  "pythonProcess py_started = Some 0" "py_isReady py_started" "py_requestQueue py_started = []"
  "py_pendingRequests py_started = []" "py_requestId py_started = 0" "py_maxQueueSize py_started = 10"
  "next_promise (py_rt py_started) = 1" "timers (py_rt py_started) = []"
  "trace (py_rt py_started) = [Spawn 0, Emit ''started'']"
  "next_timer (py_rt py_started) = 0" "next_pid (py_rt py_started) = 1"
  "spawn_error (py_rt py_started) = None" "write_error (py_rt py_started) = None"
  "promises (py_rt py_started) 0 = Resolved JNull"
  by (simp_all add: py_started_def py_start_def py_fresh_def py_constructor_def new_array_def
        runtime0_def new_promise_def spawn_def effect_def py_processQueue.simps settle_fresh Let_def)

lemma cl_started_fields [simp]:
  "claudeProcess cl_started = Some 0" "\<not> cl_isReady cl_started" "cl_requestQueue cl_started = []"
  "cl_pendingRequests cl_started = []" "cl_requestId cl_started = 0" "cl_maxQueueSize cl_started = 10"
  "next_promise (cl_rt cl_started) = 1" "timers (cl_rt cl_started) = []"
  "trace (cl_rt cl_started) = [Spawn 0]"
  "next_timer (cl_rt cl_started) = 0" "next_pid (cl_rt cl_started) = 1"
  "spawn_error (cl_rt cl_started) = None" "write_error (cl_rt cl_started) = None"
  "promises (cl_rt cl_started) 0 = Unsettled" "cl_started_by cl_started = [(0, 0)]"
  "cl_exit_once cl_started = []" "error_listener (cl_rt cl_started)"
  by (simp_all add: cl_started_def cl_start_def cl_fresh_def cl_constructor_def new_array_def
        runtime0_def new_promise_def spawn_def effect_def Let_def)

lemma banner_lines: "nonblank_lines ''Claude Code initialized'' = [''Claude Code initialized'']"
  by (simp add: nonblank_lines_def trim_def is_space_def)

lemma banner_no_id: "find_request_id ''Claude Code initialized'' = None"
  by simp

lemma cl_ready_fields [simp]:
  "claudeProcess cl_ready = Some 0" "cl_isReady cl_ready" "cl_requestQueue cl_ready = []"
  "cl_pendingRequests cl_ready = []" "cl_requestId cl_ready = 0" "cl_maxQueueSize cl_ready = 10"
  "next_promise (cl_rt cl_ready) = 1" "timers (cl_rt cl_ready) = []"
  "trace (cl_rt cl_ready) = [Spawn 0, Emit ''error'', Emit ''ready'']"
  "next_timer (cl_rt cl_ready) = 0" "next_pid (cl_rt cl_ready) = 1"
  "spawn_error (cl_rt cl_ready) = None" "write_error (cl_rt cl_ready) = None"
  "promises (cl_rt cl_ready) 0 = Resolved JNull" "cl_started_by cl_ready = [(0, 0)]"
  "cl_exit_once cl_ready = []" "error_listener (cl_rt cl_ready)"
  by (simp_all add: cl_ready_def cl_on_stdout_def cl_handleClaudeResponse_def banner_lines
        parse_nothing_def cl_line_def cl_catch_def cl_log_error_def array_push_def effect_def
        cl_processQueue.simps settle_self Let_def)

lemma py_sendRequest_live:
  assumes "py_isRunning st" and "pythonProcess st = Some pid" and "write_error (py_rt st) = None"
  shows "py_sendRequest request timeout st =
    (Returns (next_promise (py_rt st)),
     st\<lparr>py_requestId := py_requestId st + 1,
        py_pendingRequests :=
          AList.update (py_requestId st + 1)
            \<lparr>h_timer = next_timer (py_rt st), h_promise = next_promise (py_rt st)\<rparr>
            (py_pendingRequests st),
        py_rt := (py_rt st)
          \<lparr>promises := (promises (py_rt st))(next_promise (py_rt st) := Unsettled),
           continuations := (continuations (py_rt st))(next_promise (py_rt st) := None),
           next_promise := Suc (next_promise (py_rt st)),
           timers := timers (py_rt st) @
             [(next_timer (py_rt st), timeout,
               PyTimeout (py_requestId st + 1)
                 (AList.update ''requestId'' (JNum (py_requestId st + 1)) request)
                 (next_promise (py_rt st)))],
           next_timer := Suc (next_timer (py_rt st)),
           trace := trace (py_rt st) @
             [Write pid (JsonLine (AList.update ''requestId'' (JNum (py_requestId st + 1)) request))]\<rparr>\<rparr>)"
  using assms
  by (simp add: py_sendRequest_def new_promise_def set_timeout_def effect_def Let_def)

lemma cl_sendRequest_live:
  assumes "cl_isReady st" and "claudeProcess st = Some pid" and "write_error (cl_rt st) = None"
  shows "cl_sendRequest action data timeout st =
    (Returns (next_promise (cl_rt st)),
     st\<lparr>cl_requestId := cl_requestId st + 1,
        cl_pendingRequests :=
          AList.update (string_of_int (cl_requestId st + 1))
            \<lparr>h_timer = next_timer (cl_rt st), h_promise = next_promise (cl_rt st), h_prompt = False\<rparr>
            (cl_pendingRequests st),
        cl_rt := (cl_rt st)
          \<lparr>promises := (promises (cl_rt st))(next_promise (cl_rt st) := Unsettled),
           continuations := (continuations (cl_rt st))(next_promise (cl_rt st) := None),
           next_promise := Suc (next_promise (cl_rt st)),
           timers := timers (cl_rt st) @
             [(next_timer (cl_rt st), timeout,
               ClTimeout (string_of_int (cl_requestId st + 1)) (next_promise (cl_rt st)))],
           next_timer := Suc (next_timer (cl_rt st)),
           trace := trace (cl_rt st) @
             [Write pid (JsonLine (spread [(''requestId'', JStr (string_of_int (cl_requestId st + 1))),
                                           (''action'', JStr action)] data))]\<rparr>\<rparr>)"
  using assms
  by (simp add: cl_sendRequest_def cl_write_def new_promise_def set_timeout_def effect_def Let_def)

lemma cl_sendPrompt_live:
  assumes "cl_isReady st" and "claudeProcess st = Some pid" and "write_error (cl_rt st) = None"
  shows "cl_sendPromptToClaudeCode prompt timeout st =
    (Returns (next_promise (cl_rt st)),
     st\<lparr>cl_requestId := cl_requestId st + 1,
        cl_pendingRequests :=
          AList.update (string_of_int (cl_requestId st + 1))
            \<lparr>h_timer = next_timer (cl_rt st), h_promise = next_promise (cl_rt st), h_prompt = True\<rparr>
            (cl_pendingRequests st),
        cl_rt := (cl_rt st)
          \<lparr>promises := (promises (cl_rt st))(next_promise (cl_rt st) := Unsettled),
           continuations := (continuations (cl_rt st))(next_promise (cl_rt st) := None),
           next_promise := Suc (next_promise (cl_rt st)),
           timers := timers (cl_rt st) @
             [(next_timer (cl_rt st), timeout,
               ClTimeout (string_of_int (cl_requestId st + 1)) (next_promise (cl_rt st)))],
           next_timer := Suc (next_timer (cl_rt st)),
           trace := trace (cl_rt st) @
             [Write pid (Raw (''REQUEST_ID:'' @ string_of_int (cl_requestId st + 1) @ [CHR 0x0A] @ prompt
                              @ [CHR 0x0A] @ ''---END_REQUEST---'' @ [CHR 0x0A]))]\<rparr>\<rparr>)"
  using assms
  by (simp add: cl_sendPromptToClaudeCode_def cl_write_def new_promise_def set_timeout_def effect_def Let_def)

section \<open>Timeout values\<close>

text \<open>
  Claim C8, as amended. A request registered with a timeout less than or equal to 0 is
  accepted like any other: on a ready bridge the call returns an unsettled promise, a
  timer is armed with the given delay and the request is written to the subprocess.
  No invalid-timeout error exists in either bridge.
\<close>

theorem nonpositive_timeout_is_accepted:
  "(timeout \<le> 0 \<and> py_isRunning ps \<and> pythonProcess ps = Some pid \<and> write_error (py_rt ps) = None \<longrightarrow>
      fst (py_sendRequest request timeout ps) = Returns (next_promise (py_rt ps))
      \<and> promises (py_rt (snd (py_sendRequest request timeout ps))) (next_promise (py_rt ps)) = Unsettled
      \<and> timers (py_rt (snd (py_sendRequest request timeout ps)))
          = timers (py_rt ps) @
            [(next_timer (py_rt ps), timeout,
              PyTimeout (py_requestId ps + 1)
                (AList.update ''requestId'' (JNum (py_requestId ps + 1)) request)
                (next_promise (py_rt ps)))]
      \<and> trace (py_rt (snd (py_sendRequest request timeout ps)))
          = trace (py_rt ps) @
            [Write pid (JsonLine (AList.update ''requestId'' (JNum (py_requestId ps + 1)) request))])
   \<and> (ctimeout \<le> 0 \<and> cl_isReady cs \<and> claudeProcess cs = Some cpid \<and> write_error (cl_rt cs) = None \<longrightarrow>
      fst (cl_sendRequest action data ctimeout cs) = Returns (next_promise (cl_rt cs))
      \<and> promises (cl_rt (snd (cl_sendRequest action data ctimeout cs))) (next_promise (cl_rt cs)) = Unsettled
      \<and> timers (cl_rt (snd (cl_sendRequest action data ctimeout cs)))
          = timers (cl_rt cs) @
            [(next_timer (cl_rt cs), ctimeout,
              ClTimeout (string_of_int (cl_requestId cs + 1)) (next_promise (cl_rt cs)))]
      \<and> trace (cl_rt (snd (cl_sendRequest action data ctimeout cs)))
          = trace (cl_rt cs) @
            [Write cpid (JsonLine (spread [(''requestId'', JStr (string_of_int (cl_requestId cs + 1))),
                                           (''action'', JStr action)] data))])"
proof -
  have py: "py_isRunning ps \<and> pythonProcess ps = Some pid \<and> write_error (py_rt ps) = None \<longrightarrow>
      fst (py_sendRequest request timeout ps) = Returns (next_promise (py_rt ps))
      \<and> promises (py_rt (snd (py_sendRequest request timeout ps))) (next_promise (py_rt ps)) = Unsettled
      \<and> timers (py_rt (snd (py_sendRequest request timeout ps)))
          = timers (py_rt ps) @
            [(next_timer (py_rt ps), timeout,
              PyTimeout (py_requestId ps + 1)
                (AList.update ''requestId'' (JNum (py_requestId ps + 1)) request)
                (next_promise (py_rt ps)))]
      \<and> trace (py_rt (snd (py_sendRequest request timeout ps)))
          = trace (py_rt ps) @
            [Write pid (JsonLine (AList.update ''requestId'' (JNum (py_requestId ps + 1)) request))]"
    by (simp add: py_sendRequest_live)
  have cl: "cl_isReady cs \<and> claudeProcess cs = Some cpid \<and> write_error (cl_rt cs) = None \<longrightarrow>
      fst (cl_sendRequest action data ctimeout cs) = Returns (next_promise (cl_rt cs))
      \<and> promises (cl_rt (snd (cl_sendRequest action data ctimeout cs))) (next_promise (cl_rt cs)) = Unsettled
      \<and> timers (cl_rt (snd (cl_sendRequest action data ctimeout cs)))
          = timers (cl_rt cs) @
            [(next_timer (cl_rt cs), ctimeout,
              ClTimeout (string_of_int (cl_requestId cs + 1)) (next_promise (cl_rt cs)))]
      \<and> trace (cl_rt (snd (cl_sendRequest action data ctimeout cs)))
          = trace (cl_rt cs) @
            [Write cpid (JsonLine (spread [(''requestId'', JStr (string_of_int (cl_requestId cs + 1))),
                                           (''action'', JStr action)] data))]"
    by (simp add: cl_sendRequest_live)
  from py cl show ?thesis by blast
qed

lemma string_of_int_1 [simp]: "string_of_int 1 = ''1''"
  by (simp add: string_of_int_def string_of_nat.simps digit_char_def)

theorem nonpositive_timeout_is_accepted_witness:
  "((0::int) \<le> 0 \<and> py_isRunning py_started \<and> pythonProcess py_started = Some 0
      \<and> write_error (py_rt py_started) = None)
   \<and> fst (py_sendRequest status_request 0 py_started) = Returns 1
   \<and> promises (py_rt (snd (py_sendRequest status_request 0 py_started))) 1 = Unsettled
   \<and> timers (py_rt (snd (py_sendRequest status_request 0 py_started)))
       = [(0, 0, PyTimeout 1 [(''action'', JStr ''status''), (''requestId'', JNum 1)] 1)]
   \<and> ((- 1 :: int) \<le> 0 \<and> cl_isReady cl_ready \<and> claudeProcess cl_ready = Some 0
      \<and> write_error (cl_rt cl_ready) = None)
   \<and> fst (cl_sendRequest ''getStatus'' [] (- 1) cl_ready) = Returns 1
   \<and> promises (cl_rt (snd (cl_sendRequest ''getStatus'' [] (- 1) cl_ready))) 1 = Unsettled
   \<and> timers (cl_rt (snd (cl_sendRequest ''getStatus'' [] (- 1) cl_ready))) = [(0, - 1, ClTimeout ''1'' 1)]"
  using nonpositive_timeout_is_accepted
          [where timeout = 0 and ps = py_started and pid = 0 and request = status_request
             and ctimeout = "- 1" and cs = cl_ready and cpid = 0 and action = "''getStatus''"
             and data = "[]"]
  by (simp add: py_isRunning_def status_request_def)

text \<open>The claim as stated fails: a call with timeout 0 on the started speech bridge is
  not refused. Its promise stays unsettled, a timer with delay 0 is armed and the
  request is written to the child.\<close>

theorem zero_timeout_is_dispatched:
  "fst (py_sendRequest status_request 0 py_started) = Returns 1
   \<and> promises (py_rt (snd (py_sendRequest status_request 0 py_started))) 1 = Unsettled
   \<and> timers (py_rt (snd (py_sendRequest status_request 0 py_started)))
       = [(0, 0, PyTimeout 1 [(''action'', JStr ''status''), (''requestId'', JNum 1)] 1)]
   \<and> trace (py_rt (snd (py_sendRequest status_request 0 py_started)))
       = [Spawn 0, Emit ''started'',
          Write 0 (JsonLine [(''action'', JStr ''status''), (''requestId'', JNum 1)])]"
  using py_sendRequest_live [of py_started 0 status_request 0]
  by (simp add: py_isRunning_def status_request_def)

section \<open>Log snapshots\<close>

lemma mutate_keeps_others:
  assumes "mutate m (snapshot, r) = (snapshot', r')"
    and "errors snapshot \<noteq> a" and "info snapshot \<noteq> a" and "a < next_array r"
  shows "arrays r' a = arrays r a \<and> errors snapshot' \<noteq> a \<and> info snapshot' \<noteq> a \<and> a < next_array r'"
proof (cases m)
  case (Push f x)
  with assms show ?thesis by (cases f) (auto simp: array_push_def)
next
  case (Overwrite f xs)
  with assms show ?thesis by (cases f) auto
next
  case (Assign f xs)
  with assms show ?thesis by (cases f) (auto simp: new_array_def)
qed

lemma mutations_keep_others:
  "fold mutate ms (snapshot, r) = (snapshot', r') \<Longrightarrow>
   errors snapshot \<noteq> a \<Longrightarrow> info snapshot \<noteq> a \<Longrightarrow> a < next_array r \<Longrightarrow>
   arrays r' a = arrays r a"
proof (induction ms arbitrary: snapshot r)
  case Nil
  then show ?case by simp
next
  case (Cons m ms)
  obtain s1 r1 where step: "mutate m (snapshot, r) = (s1, r1)" by (cases "mutate m (snapshot, r)")
  from mutate_keeps_others[OF step Cons.prems(2,3,4)]
  have k: "arrays r1 a = arrays r a" "errors s1 \<noteq> a" "info s1 \<noteq> a" "a < next_array r1" by simp_all
  from Cons.prems(1) step have "fold mutate ms (s1, r1) = (snapshot', r')" by simp
  from Cons.IH[OF this k(2,3,4)] k(1) show ?case by simp
qed

text \<open>The snapshot of the assistant bridge shares nothing with the bridge's logs.\<close>

lemma cl_getLogs_isolated:
  assumes "errors (cl_logs st) < next_array (cl_rt st)" and "info (cl_logs st) < next_array (cl_rt st)"
    and "cl_getLogs st = (snapshot, st1)"
    and "fold mutate ms (snapshot, cl_rt st1) = (snapshot', r')"
  shows "log_contents (cl_logs st1) r' = log_contents (cl_logs st) (cl_rt st)"
proof -
  from assms(3) have logs: "cl_logs st1 = cl_logs st"
    and snap: "errors snapshot = next_array (cl_rt st)" "info snapshot = Suc (next_array (cl_rt st))"
    and nxt: "next_array (cl_rt st1) = Suc (Suc (next_array (cl_rt st)))"
    and arr: "arrays (cl_rt st1) (errors (cl_logs st)) = arrays (cl_rt st) (errors (cl_logs st))"
             "arrays (cl_rt st1) (info (cl_logs st)) = arrays (cl_rt st) (info (cl_logs st))"
    using assms(1,2) by (auto simp: cl_getLogs_def new_array_def Let_def)
  have e: "arrays r' (errors (cl_logs st)) = arrays (cl_rt st1) (errors (cl_logs st))"
    using mutations_keep_others[OF assms(4), of "errors (cl_logs st)"] snap nxt assms(1) by simp
  have i: "arrays r' (info (cl_logs st)) = arrays (cl_rt st1) (info (cl_logs st))"
    using mutations_keep_others[OF assms(4), of "info (cl_logs st)"] snap nxt assms(2) by simp
  from e i arr logs show ?thesis by (simp add: log_contents_def)
qed

text \<open>
  Claim C9 asks that no mutation of the object returned by \<^verbatim>\<open>getLogs()\<close> changes
  the bridge's own logs. The assistant bridge copies both arrays (the lemma above).
  The speech bridge copies only the outer object: on a new speech bridge, whose logs
  are empty, pushing "test" onto the \<^verbatim>\<open>errors\<close> array of the snapshot puts
  "test" into the bridge's own error log. The same push on a snapshot of a new
  assistant bridge leaves its logs empty.
\<close>

theorem py_getLogs_shares_arrays:
  "log_contents (py_logs py_fresh) (py_rt py_fresh) = ([], [])
   \<and> log_contents (py_logs py_fresh)
        (snd (mutate (Push ErrorsField ''test'') (py_getLogs py_fresh, py_rt py_fresh)))
       = ([''test''], [])
   \<and> log_contents (cl_logs cl_fresh)
        (snd (mutate (Push ErrorsField ''test'') (fst (cl_getLogs cl_fresh), cl_rt (snd (cl_getLogs cl_fresh)))))
       = ([], [])"
  by (simp add: log_contents_def py_getLogs_def py_fresh_def py_constructor_def cl_getLogs_def
        cl_fresh_def cl_constructor_def new_array_def runtime0_def array_push_def Let_def)

section \<open>Facts about the two routers\<close>

lemma clear_timeout_fields [simp]:
  "promises (clear_timeout t r) = promises r" "continuations (clear_timeout t r) = continuations r"
  "trace (clear_timeout t r) = trace r" "arrays (clear_timeout t r) = arrays r"
  "next_promise (clear_timeout t r) = next_promise r" "next_timer (clear_timeout t r) = next_timer r"
  "timers (clear_timeout t r) = AList.delete t (timers r)"
  "write_error (clear_timeout t r) = write_error r" "spawn_error (clear_timeout t r) = spawn_error r"
  "error_listener (clear_timeout t r) = error_listener r"
  by (simp_all add: clear_timeout_def)

lemma resolve_handler_once:
  "promises r x \<noteq> Unsettled \<Longrightarrow> promises (resolve_handler h v r) x = promises r x"
  by (simp add: resolve_handler_def settle_once)

lemma reject_handler_once:
  "promises r x \<noteq> Unsettled \<Longrightarrow> promises (reject_handler h m r) x = promises r x"
  by (simp add: reject_handler_def settle_once)

lemma reject_error_once:
  "promises r x \<noteq> Unsettled \<Longrightarrow> promises (reject_error h e r) x = promises r x"
  by (simp add: reject_error_def settle_once)

lemma reject_error_string: "reject_error h (Some (JStr e)) r = reject_handler h e r"
  by (simp add: reject_error_def reject_handler_def)

lemma py_log_error_fields [simp]:
  "promises (py_rt (py_log_error m st)) = promises (py_rt st)"
  "py_pendingRequests (py_log_error m st) = py_pendingRequests st"
  "timers (py_rt (py_log_error m st)) = timers (py_rt st)"
  "trace (py_rt (py_log_error m st)) = trace (py_rt st)"
  "py_requestQueue (py_log_error m st) = py_requestQueue st"
  by (simp_all add: py_log_error_def array_push_def)

lemma handlePythonResponse_once:
  "promises (py_rt st) x \<noteq> Unsettled \<Longrightarrow>
   promises (py_rt (snd (handlePythonResponse response st))) x = promises (py_rt st) x"
  by (cases response)
     (auto simp: Let_def py_delete_def resolve_handler_once reject_error_once
           split: option.splits json.splits)

lemma handlePythonResponse_absent:
  "map_of (py_pendingRequests st) n = None \<Longrightarrow>
   map_of (py_pendingRequests (snd (handlePythonResponse response st))) n = None"
  by (cases response)
     (auto simp: Let_def py_delete_def delete_conv' split: option.splits json.splits)

lemma py_line_once:
  assumes "promises (py_rt st) x \<noteq> Unsettled"
  shows "promises (py_rt (py_line parse line st)) x = promises (py_rt st) x"
proof (cases "parse line")
  case (Inl m)
  then show ?thesis by (simp add: py_line_def)
next
  case (Inr response)
  obtain exn st1 where h: "handlePythonResponse response st = (exn, st1)"
    by (cases "handlePythonResponse response st")
  with handlePythonResponse_once[OF assms, of response]
  have "promises (py_rt st1) x = promises (py_rt st) x" by simp
  with Inr h show ?thesis by (cases exn) (simp_all add: py_line_def)
qed

lemma py_line_absent:
  assumes "map_of (py_pendingRequests st) n = None"
  shows "map_of (py_pendingRequests (py_line parse line st)) n = None"
proof (cases "parse line")
  case (Inl m)
  with assms show ?thesis by (simp add: py_line_def)
next
  case (Inr response)
  obtain exn st1 where h: "handlePythonResponse response st = (exn, st1)"
    by (cases "handlePythonResponse response st")
  with handlePythonResponse_absent[OF assms, of response]
  have "map_of (py_pendingRequests st1) n = None" by simp
  with Inr h show ?thesis by (cases exn) (simp_all add: py_line_def)
qed

lemma py_lines_once:
  "promises (py_rt st) x \<noteq> Unsettled \<Longrightarrow>
   promises (py_rt (py_lines parse ls st)) x = promises (py_rt st) x"
proof (induction ls arbitrary: st)
  case Nil
  then show ?case by simp
next
  case (Cons line ls)
  from py_line_once[OF Cons.prems]
  have step: "promises (py_rt (py_line parse line st)) x = promises (py_rt st) x" .
  with Cons.prems have "promises (py_rt (py_line parse line st)) x \<noteq> Unsettled" by simp
  from Cons.IH[OF this] step show ?case by simp
qed

lemma py_lines_absent:
  "map_of (py_pendingRequests st) n = None \<Longrightarrow>
   map_of (py_pendingRequests (py_lines parse ls st)) n = None"
  by (induction ls arbitrary: st) (simp_all add: py_line_absent)

lemma py_lines_append:
  "py_lines parse (xs @ ys) st = py_lines parse ys (py_lines parse xs st)"
  by (induction xs arbitrary: st) simp_all

text \<open>One response line that names a pending request, on the speech bridge.\<close>

lemma py_line_error_response:
  assumes "parse line = Inr (JObj response)"
    and "map_of response ''requestId'' = Some (JNum n)" and "n \<noteq> 0"
    and "map_of (py_pendingRequests st) n = Some h"
    and "map_of response ''error'' = Some (JStr e)" and "e \<noteq> []"
    and "e \<noteq> ''Audio format not supported''"
    and "promises (py_rt st) (h_promise h) = Unsettled"
  shows "promises (py_rt (py_line parse line st)) (h_promise h) = Rejected e"
    and "map_of (py_pendingRequests (py_line parse line st)) n = None"
  using assms
  by (simp_all add: py_line_def py_has_def py_delete_def reject_error_def settle_self
        delete_conv' Let_def)

lemma py_line_audio_format_response:
  assumes "parse line = Inr (JObj response)"
    and "map_of response ''requestId'' = Some (JNum n)" and "n \<noteq> 0"
    and "map_of (py_pendingRequests st) n = Some h"
    and "map_of response ''error'' = Some (JStr ''Audio format not supported'')"
    and "promises (py_rt st) (h_promise h) = Unsettled"
  shows "promises (py_rt (py_line parse line st)) (h_promise h) = Resolved audio_format_result"
    and "map_of (py_pendingRequests (py_line parse line st)) n = None"
  using assms
  by (simp_all add: py_line_def py_has_def py_delete_def resolve_handler_def settle_self
        delete_conv' Let_def)

lemma py_line_success_response:
  assumes "parse line = Inr (JObj response)"
    and "map_of response ''requestId'' = Some (JNum n)" and "n \<noteq> 0"
    and "map_of (py_pendingRequests st) n = Some h"
    and "map_of response ''error'' = None"
    and "promises (py_rt st) (h_promise h) = Unsettled"
  shows "promises (py_rt (py_line parse line st)) (h_promise h)
           = Resolved (JObj (AList.delete ''requestId'' response))"
    and "map_of (py_pendingRequests (py_line parse line st)) n = None"
  using assms
  by (simp_all add: py_line_def py_has_def py_delete_def resolve_handler_def settle_self
        delete_conv' Let_def)

lemma py_line_unknown_response:
  assumes "parse line = Inr (JObj response)"
    and "py_has (map_of response ''requestId'') st = None"
  shows "py_line parse line st = st"
  using assms by (simp add: py_line_def)

lemma cl_log_error_fields [simp]:
  "promises (cl_rt (cl_log_error m st)) = promises (cl_rt st)"
  "cl_pendingRequests (cl_log_error m st) = cl_pendingRequests st"
  "timers (cl_rt (cl_log_error m st)) = timers (cl_rt st)"
  "trace (cl_rt (cl_log_error m st)) = trace (cl_rt st)"
  "cl_requestQueue (cl_log_error m st) = cl_requestQueue st"
  "error_listener (cl_rt (cl_log_error m st)) = error_listener (cl_rt st)"
  "cl_isReady (cl_log_error m st) = cl_isReady st"
  "claudeProcess (cl_log_error m st) = claudeProcess st"
  by (simp_all add: cl_log_error_def array_push_def)

lemma cl_resolve_once:
  "promises r x \<noteq> Unsettled \<Longrightarrow> promises (cl_resolve parse h v r) x = promises r x"
  by (simp add: cl_resolve_def settle_once Let_def split: json.splits option.splits sum.splits)

lemma cl_catch_once:
  "promises (cl_rt (snd (cl_catch content line st))) x = promises (cl_rt st) x"
  by (simp add: cl_catch_def effect_def Let_def)

lemma cl_catch_pending:
  "cl_pendingRequests (snd (cl_catch content line st)) = cl_pendingRequests st"
  by (simp add: cl_catch_def effect_def Let_def)

lemma cl_json_response_once:
  "promises (cl_rt st) x \<noteq> Unsettled \<Longrightarrow>
   promises (cl_rt (snd (cl_json_response parse response st))) x = promises (cl_rt st) x"
  by (cases response)
     (auto simp: Let_def cl_delete_def cl_resolve_once reject_error_once
           split: option.splits json.splits)

lemma cl_json_response_absent:
  "map_of (cl_pendingRequests st) k = None \<Longrightarrow>
   map_of (cl_pendingRequests (snd (cl_json_response parse response st))) k = None"
  by (cases response)
     (auto simp: Let_def cl_delete_def delete_conv' split: option.splits json.splits)

lemma cl_line_once:
  assumes "promises (cl_rt st) x \<noteq> Unsettled"
  shows "promises (cl_rt (snd (cl_line parse content line st))) x = promises (cl_rt st) x"
proof (cases "parse line")
  case (Inl m)
  then show ?thesis by (simp add: cl_line_def cl_catch_once)
next
  case (Inr response)
  obtain exn st1 where h: "cl_json_response parse response st = (exn, st1)"
    by (cases "cl_json_response parse response st")
  with cl_json_response_once[OF assms, of parse response]
  have "promises (cl_rt st1) x = promises (cl_rt st) x" by simp
  with Inr h show ?thesis by (cases exn) (simp_all add: cl_line_def cl_catch_once)
qed

lemma cl_line_absent:
  assumes "map_of (cl_pendingRequests st) k = None"
  shows "map_of (cl_pendingRequests (snd (cl_line parse content line st))) k = None"
proof (cases "parse line")
  case (Inl m)
  with assms show ?thesis by (simp add: cl_line_def cl_catch_pending)
next
  case (Inr response)
  obtain exn st1 where h: "cl_json_response parse response st = (exn, st1)"
    by (cases "cl_json_response parse response st")
  with cl_json_response_absent[OF assms, of parse response]
  have "map_of (cl_pendingRequests st1) k = None" by simp
  with Inr h show ?thesis by (cases exn) (simp_all add: cl_line_def cl_catch_pending)
qed

lemma cl_lines_once:
  "promises (cl_rt st) x \<noteq> Unsettled \<Longrightarrow>
   promises (cl_rt (snd (cl_lines parse content ls st))) x = promises (cl_rt st) x"
proof (induction ls arbitrary: st)
  case Nil
  then show ?case by simp
next
  case (Cons line ls)
  obtain exn st1 where l: "cl_line parse content line st = (exn, st1)"
    by (cases "cl_line parse content line st")
  with cl_line_once[OF Cons.prems, of parse content line]
  have step: "promises (cl_rt st1) x = promises (cl_rt st) x" by simp
  show ?case
  proof (cases exn)
    case None
    from step Cons.prems have "promises (cl_rt st1) x \<noteq> Unsettled" by simp
    from Cons.IH[OF this] step l None show ?thesis by simp
  next
    case (Some e)
    with l step show ?thesis by simp
  qed
qed

lemma cl_lines_absent:
  "map_of (cl_pendingRequests st) k = None \<Longrightarrow>
   map_of (cl_pendingRequests (snd (cl_lines parse content ls st))) k = None"
proof (induction ls arbitrary: st)
  case Nil
  then show ?case by simp
next
  case (Cons line ls)
  obtain exn st1 where l: "cl_line parse content line st = (exn, st1)"
    by (cases "cl_line parse content line st")
  with cl_line_absent[OF Cons.prems, of parse content line]
  have step: "map_of (cl_pendingRequests st1) k = None" by simp
  show ?case
  proof (cases exn)
    case None
    from Cons.IH[OF step] l None show ?thesis by simp
  next
    case (Some e)
    with l step show ?thesis by simp
  qed
qed

text \<open>The lines before a line that is reached: none of them threw.\<close>

lemma cl_lines_append:
  "cl_lines parse content xs st = (None, st1) \<Longrightarrow>
   cl_lines parse content (xs @ ys) st = cl_lines parse content ys st1"
proof (induction xs arbitrary: st)
  case Nil
  then show ?case by simp
next
  case (Cons x xs)
  obtain exn st2 where l: "cl_line parse content x st = (exn, st2)"
    by (cases "cl_line parse content x st")
  with Cons.prems have n: "exn = None" by (cases exn) simp_all
  with l Cons.prems have "cl_lines parse content xs st2 = (None, st1)" by simp
  from Cons.IH[OF this] l n show ?case by simp
qed

text \<open>The router of the assistant bridge throws only out of the emit in its catch
  block: with an \<^verbatim>\<open>'error'\<close> listener attached no line makes it throw.\<close>

lemma cl_resolve_listener [simp]:
  "error_listener (cl_resolve parse h v r) = error_listener r"
  by (simp add: cl_resolve_def Let_def split: json.splits option.splits sum.splits)

lemma reject_error_listener [simp]:
  "error_listener (reject_error h e r) = error_listener r"
  by (simp add: reject_error_def)

lemma cl_json_response_listener:
  "error_listener (cl_rt (snd (cl_json_response parse response st))) = error_listener (cl_rt st)"
  by (cases response)
     (auto simp: Let_def cl_delete_def split: option.splits json.splits)

lemma cl_catch_listener:
  "error_listener (cl_rt st) \<Longrightarrow>
   fst (cl_catch content line st) = None
   \<and> error_listener (cl_rt (snd (cl_catch content line st)))"
  by (simp add: cl_catch_def effect_def Let_def)

lemma cl_line_listener:
  assumes "error_listener (cl_rt st)"
  shows "fst (cl_line parse content line st) = None
   \<and> error_listener (cl_rt (snd (cl_line parse content line st)))"
proof (cases "parse line")
  case (Inl m)
  with cl_catch_listener[OF assms] show ?thesis by (simp add: cl_line_def)
next
  case (Inr response)
  obtain exn st1 where j: "cl_json_response parse response st = (exn, st1)"
    by (cases "cl_json_response parse response st")
  with cl_json_response_listener[of parse response st] assms
  have l: "error_listener (cl_rt st1)" by simp
  show ?thesis
  proof (cases exn)
    case None
    with Inr j l show ?thesis by (simp add: cl_line_def)
  next
    case (Some x)
    with Inr j cl_catch_listener[OF l] show ?thesis by (simp add: cl_line_def)
  qed
qed

lemma cl_lines_listener:
  "error_listener (cl_rt st) \<Longrightarrow> fst (cl_lines parse content ls st) = None"
proof (induction ls arbitrary: st)
  case Nil
  then show ?case by simp
next
  case (Cons line ls)
  obtain exn st1 where l: "cl_line parse content line st = (exn, st1)"
    by (cases "cl_line parse content line st")
  with cl_line_listener[OF Cons.prems, of parse content line]
  have "exn = None" and "error_listener (cl_rt st1)" by simp_all
  with l Cons.IH[of st1] show ?case by simp
qed

text \<open>One response line that names a pending request, on the assistant bridge.\<close>

lemma cl_line_error_response:
  assumes "parse line = Inr (JObj response)"
    and "map_of response ''requestId'' = Some (JStr k)" and "k \<noteq> []"
    and "map_of (cl_pendingRequests st) k = Some h"
    and "map_of response ''error'' = Some (JStr e)" and "e \<noteq> []"
    and "promises (cl_rt st) (h_promise h) = Unsettled"
  shows "fst (cl_line parse content line st) = None"
    and "promises (cl_rt (snd (cl_line parse content line st))) (h_promise h) = Rejected e"
    and "map_of (cl_pendingRequests (snd (cl_line parse content line st))) k = None"
  using assms
  by (simp_all add: cl_line_def cl_has_def cl_delete_def reject_error_def settle_self
        delete_conv' Let_def)

lemma cl_line_success_response:
  assumes "parse line = Inr (JObj response)"
    and "map_of response ''requestId'' = Some (JStr k)" and "k \<noteq> []"
    and "map_of (cl_pendingRequests st) k = Some h"
    and "map_of response ''error'' = None"
    and "\<not> h_prompt h"
    and "promises (cl_rt st) (h_promise h) = Unsettled"
  shows "fst (cl_line parse content line st) = None"
    and "promises (cl_rt (snd (cl_line parse content line st))) (h_promise h)
           = Resolved (JObj (AList.delete ''requestId'' response))"
    and "map_of (cl_pendingRequests (snd (cl_line parse content line st))) k = None"
  using assms
  by (simp_all add: cl_line_def cl_has_def cl_delete_def cl_resolve_def settle_self
        delete_conv' Let_def)

lemma cl_line_success_response_prompt:
  assumes "parse line = Inr (JObj response)"
    and "map_of response ''requestId'' = Some (JStr k)" and "k \<noteq> []"
    and "map_of (cl_pendingRequests st) k = Some h"
    and "map_of response ''error'' = None"
    and "h_prompt h"
    and "promises (cl_rt st) (h_promise h) = Unsettled"
  shows "promises (cl_rt (snd (cl_line parse content line st))) (h_promise h)
           = Rejected ''Failed to parse Claude Code JSON response: response.match is not a function''"
  using assms
  by (simp_all add: cl_line_def cl_has_def cl_delete_def cl_resolve_def settle_self
        delete_conv' Let_def)

lemma cl_line_unknown_response:
  assumes "parse line = Inr (JObj response)"
    and "cl_has (map_of response ''requestId'') st = None"
  shows "cl_line parse content line st = (None, st)"
  using assms by (simp add: cl_line_def)

section \<open>Responses and sessions used as concrete inputs\<close>

lemma example_lines:
  "nonblank_lines py_error_line = [py_error_line]"
  "nonblank_lines audio_error_line = [audio_error_line]"
  "nonblank_lines py_success_line = [py_success_line]"
  "nonblank_lines py_late_line = [py_late_line]"
  "nonblank_lines cl_error_line = [cl_error_line]"
  "nonblank_lines cl_success_line = [cl_success_line]"
  "nonblank_lines cl_late_line = [cl_late_line]"
  "find_request_id cl_error_line = None"
  "find_request_id cl_success_line = None"
  "find_request_id cl_late_line = None"
  by (simp_all add: py_error_line_def audio_error_line_def py_success_line_def py_late_line_def
        cl_error_line_def cl_success_line_def cl_late_line_def nonblank_lines_def trim_def is_space_def)

lemma parse_example_values:
  "parse_example py_error_line = Inr (JObj [(''requestId'', JNum 1), (''error'', JStr ''Microphone not found'')])"
  "parse_example audio_error_line = Inr (JObj [(''requestId'', JNum 1), (''error'', JStr ''Audio format not supported'')])"
  "parse_example py_success_line = Inr (JObj [(''requestId'', JNum 1), (''status'', JStr ''ok'')])"
  "parse_example py_late_line = Inr (JObj [(''requestId'', JNum 7), (''status'', JStr ''ok'')])"
  "parse_example cl_error_line = Inr (JObj [(''requestId'', JStr ''1''), (''error'', JStr ''Session expired'')])"
  "parse_example cl_success_line = Inr (JObj [(''requestId'', JStr ''1''), (''isReady'', JBool True)])"
  "parse_example cl_late_line = Inr (JObj [(''requestId'', JStr ''7''), (''isReady'', JBool True)])"
  by (simp_all add: parse_example_def py_error_line_def audio_error_line_def py_success_line_def
        py_late_line_def cl_error_line_def cl_success_line_def cl_late_line_def)

lemma py_recognize_pending_fields:
  "py_pendingRequests py_recognize_pending = [(1, \<lparr>h_timer = 0, h_promise = 1\<rparr>)]"
  "promises (py_rt py_recognize_pending) 1 = Unsettled"
  "timers (py_rt py_recognize_pending)
     = [(0, 5000, PyTimeout 1 (recognize_request @ [(''requestId'', JNum 1)]) 1)]"
  "continuations (py_rt py_recognize_pending) 1 = None"
  using py_sendRequest_live [of py_started 0 recognize_request 5000]
  by (simp_all add: py_recognize_pending_def py_isRunning_def recognize_request_def)

lemma py_status_pending_fields:
  "py_pendingRequests py_status_pending = [(1, \<lparr>h_timer = 0, h_promise = 1\<rparr>)]"
  "promises (py_rt py_status_pending) 1 = Unsettled"
  "timers (py_rt py_status_pending)
     = [(0, 10000, PyTimeout 1 (status_request @ [(''requestId'', JNum 1)]) 1)]"
  "continuations (py_rt py_status_pending) 1 = None"
  using py_sendRequest_live [of py_started 0 status_request 10000]
  by (simp_all add: py_status_pending_def py_isRunning_def status_request_def)

lemma cl_status_pending_fields:
  "cl_pendingRequests cl_status_pending = [(''1'', \<lparr>h_timer = 0, h_promise = 1, h_prompt = False\<rparr>)]"
  "promises (cl_rt cl_status_pending) 1 = Unsettled"
  "timers (cl_rt cl_status_pending) = [(0, 5000, ClTimeout ''1'' 1)]"
  "continuations (cl_rt cl_status_pending) 1 = None"
  "error_listener (cl_rt cl_status_pending)"
  using cl_sendRequest_live [of cl_ready 0 "''getStatus''" "[]" 5000]
  by (simp_all add: cl_status_pending_def)

lemma cl_prompt_pending_fields:
  "cl_pendingRequests cl_prompt_pending = [(''1'', \<lparr>h_timer = 0, h_promise = 1, h_prompt = True\<rparr>)]"
  "promises (cl_rt cl_prompt_pending) 1 = Unsettled"
  "timers (cl_rt cl_prompt_pending) = [(0, 10000, ClTimeout ''1'' 1)]"
  "continuations (cl_rt cl_prompt_pending) 1 = None"
  using cl_sendPrompt_live [of cl_ready 0 "''Ask one question''" 10000]
  by (simp_all add: cl_prompt_pending_def)

section \<open>Responses that name a pending request\<close>

text \<open>
  Claim C1, as amended. A response line that reaches the router, carries a
  \<^verbatim>\<open>requestId\<close> with a pending entry of a call that is still unsettled and has a
  non-empty string in its \<^verbatim>\<open>error\<close> field rejects the originating call with that
  string as the message and removes the entry, with three provisos. On the speech
  bridge the error "Audio format not supported" does not reject: the call is resolved
  with \<^verbatim>\<open>{ transcript: '', confidence: 0, error: 'Audio format not supported' }\<close>.
  On the assistant bridge the chunk must hold no \<^verbatim>\<open>REQUEST_ID:<digits>\<close> marker,
  since a chunk with a marker is not read as JSON lines; and no line of the chunk
  before the response may have made the router throw, since an exception ends the
  reading of the chunk. With an \<^verbatim>\<open>'error'\<close> listener attached to the assistant
  bridge no line makes its router throw. The line may stand anywhere in its chunk:
  \<open>pre\<close> are the non-blank lines before it and \<open>post\<close> those after it, and the
  entry is looked up in the state that the lines before it leave behind.
\<close>

theorem error_response_rejects:
  "(nonblank_lines data = pre @ line # post
      \<and> parse line = Inr (JObj response)
      \<and> map_of response ''requestId'' = Some (JNum n) \<and> n \<noteq> 0
      \<and> map_of (py_pendingRequests (py_lines parse pre ps)) n = Some h
      \<and> promises (py_rt (py_lines parse pre ps)) (h_promise h) = Unsettled
      \<and> map_of response ''error'' = Some (JStr e) \<and> e \<noteq> []
    \<longrightarrow>
      promises (py_rt (py_on_stdout parse data ps)) (h_promise h)
        = (if e = ''Audio format not supported'' then Resolved audio_format_result else Rejected e)
      \<and> map_of (py_pendingRequests (py_on_stdout parse data ps)) n = None)
   \<and> (find_request_id cdata = None
      \<and> nonblank_lines cdata = cpre @ cline # cpost
      \<and> fst (cl_lines cparse cdata cpre cs) = None
      \<and> cparse cline = Inr (JObj cresponse)
      \<and> map_of cresponse ''requestId'' = Some (JStr k) \<and> k \<noteq> []
      \<and> map_of (cl_pendingRequests (snd (cl_lines cparse cdata cpre cs))) k = Some ch
      \<and> promises (cl_rt (snd (cl_lines cparse cdata cpre cs))) (h_promise ch) = Unsettled
      \<and> map_of cresponse ''error'' = Some (JStr ce) \<and> ce \<noteq> []
    \<longrightarrow>
      promises (cl_rt (snd (cl_handleClaudeResponse cparse cdata cs))) (h_promise ch) = Rejected ce
      \<and> map_of (cl_pendingRequests (snd (cl_handleClaudeResponse cparse cdata cs))) k = None)
   \<and> (error_listener (cl_rt ls) \<longrightarrow> fst (cl_lines lparse lcontent llines ls) = None)"
proof -
  have py: "promises (py_rt (py_on_stdout parse data ps)) (h_promise h)
        = (if e = ''Audio format not supported'' then Resolved audio_format_result else Rejected e)
      \<and> map_of (py_pendingRequests (py_on_stdout parse data ps)) n = None"
    if lines: "nonblank_lines data = pre @ line # post"
      and parsed: "parse line = Inr (JObj response)"
      and rid: "map_of response ''requestId'' = Some (JNum n)" "n \<noteq> 0"
      and pend: "map_of (py_pendingRequests (py_lines parse pre ps)) n = Some h"
      and unset: "promises (py_rt (py_lines parse pre ps)) (h_promise h) = Unsettled"
      and err: "map_of response ''error'' = Some (JStr e)" "e \<noteq> []"
  proof -
    let ?st1 = "py_lines parse pre ps"
    let ?st2 = "py_line parse line ?st1"
    have whole: "py_on_stdout parse data ps = py_lines parse post ?st2"
      using lines by (simp add: py_on_stdout_def py_lines_append)
    have step: "promises (py_rt ?st2) (h_promise h)
          = (if e = ''Audio format not supported'' then Resolved audio_format_result else Rejected e)"
    proof (cases "e = ''Audio format not supported''")
      case True
      with py_line_audio_format_response(1) [of parse line response n ?st1 h]
           parsed rid pend unset err(1)
      show ?thesis by simp
    next
      case False
      with py_line_error_response(1) [of parse line response n ?st1 h e]
           parsed rid pend unset err
      show ?thesis by simp
    qed
    have gone: "map_of (py_pendingRequests ?st2) n = None"
    proof (cases "e = ''Audio format not supported''")
      case True
      with py_line_audio_format_response(2) [of parse line response n ?st1 h]
           parsed rid pend unset err(1)
      show ?thesis by simp
    next
      case False
      with py_line_error_response(2) [of parse line response n ?st1 h e]
           parsed rid pend unset err
      show ?thesis by simp
    qed
    from step have "promises (py_rt ?st2) (h_promise h) \<noteq> Unsettled"
      by (simp split: if_splits)
    from py_lines_once [of ?st2 "h_promise h" parse post] this step whole
         py_lines_absent [of ?st2 n parse post] gone
    show ?thesis by simp
  qed
  have cl: "promises (cl_rt (snd (cl_handleClaudeResponse cparse cdata cs))) (h_promise ch) = Rejected ce
      \<and> map_of (cl_pendingRequests (snd (cl_handleClaudeResponse cparse cdata cs))) k = None"
    if nomark: "find_request_id cdata = None"
      and lines: "nonblank_lines cdata = cpre @ cline # cpost"
      and quiet: "fst (cl_lines cparse cdata cpre cs) = None"
      and parsed: "cparse cline = Inr (JObj cresponse)"
      and rid: "map_of cresponse ''requestId'' = Some (JStr k)" "k \<noteq> []"
      and pend0: "map_of (cl_pendingRequests (snd (cl_lines cparse cdata cpre cs))) k = Some ch"
      and unset0: "promises (cl_rt (snd (cl_lines cparse cdata cpre cs))) (h_promise ch) = Unsettled"
      and err: "map_of cresponse ''error'' = Some (JStr ce)" "ce \<noteq> []"
  proof -
    define cmid where "cmid = snd (cl_lines cparse cdata cpre cs)"
    from quiet have before: "cl_lines cparse cdata cpre cs = (None, cmid)"
      by (simp add: cmid_def prod_eq_iff)
    from pend0 have pend: "map_of (cl_pendingRequests cmid) k = Some ch"
      by (simp add: cmid_def)
    from unset0 have unset: "promises (cl_rt cmid) (h_promise ch) = Unsettled"
      by (simp add: cmid_def)
    obtain exn st2 where l: "cl_line cparse cdata cline cmid = (exn, st2)"
      by (cases "cl_line cparse cdata cline cmid")
    from cl_line_error_response [of cparse cline cresponse k cmid ch ce cdata]
         parsed rid pend err unset l
    have exn: "exn = None" and step: "promises (cl_rt st2) (h_promise ch) = Rejected ce"
      and gone: "map_of (cl_pendingRequests st2) k = None"
      by simp_all
    have "cl_lines cparse cdata (cpre @ cline # cpost) cs = cl_lines cparse cdata (cline # cpost) cmid"
      using before by (rule cl_lines_append)
    with l exn have "cl_lines cparse cdata (cpre @ cline # cpost) cs = cl_lines cparse cdata cpost st2"
      by simp
    with nomark lines
    have whole: "cl_handleClaudeResponse cparse cdata cs = cl_lines cparse cdata cpost st2"
      by (simp add: cl_handleClaudeResponse_def)
    from step have "promises (cl_rt st2) (h_promise ch) \<noteq> Unsettled" by simp
    from cl_lines_once [of st2 "h_promise ch" cparse cdata cpost] this step whole
         cl_lines_absent [of st2 k cparse cdata cpost] gone
    show ?thesis by simp
  qed
  have listener: "error_listener (cl_rt ls) \<longrightarrow> fst (cl_lines lparse lcontent llines ls) = None"
    using cl_lines_listener [of ls lparse lcontent llines] by blast
  from py have py': "nonblank_lines data = pre @ line # post
      \<and> parse line = Inr (JObj response)
      \<and> map_of response ''requestId'' = Some (JNum n) \<and> n \<noteq> 0
      \<and> map_of (py_pendingRequests (py_lines parse pre ps)) n = Some h
      \<and> promises (py_rt (py_lines parse pre ps)) (h_promise h) = Unsettled
      \<and> map_of response ''error'' = Some (JStr e) \<and> e \<noteq> []
    \<longrightarrow>
      promises (py_rt (py_on_stdout parse data ps)) (h_promise h)
        = (if e = ''Audio format not supported'' then Resolved audio_format_result else Rejected e)
      \<and> map_of (py_pendingRequests (py_on_stdout parse data ps)) n = None"
    by blast
  from cl have cl': "find_request_id cdata = None
      \<and> nonblank_lines cdata = cpre @ cline # cpost
      \<and> fst (cl_lines cparse cdata cpre cs) = None
      \<and> cparse cline = Inr (JObj cresponse)
      \<and> map_of cresponse ''requestId'' = Some (JStr k) \<and> k \<noteq> []
      \<and> map_of (cl_pendingRequests (snd (cl_lines cparse cdata cpre cs))) k = Some ch
      \<and> promises (cl_rt (snd (cl_lines cparse cdata cpre cs))) (h_promise ch) = Unsettled
      \<and> map_of cresponse ''error'' = Some (JStr ce) \<and> ce \<noteq> []
    \<longrightarrow>
      promises (cl_rt (snd (cl_handleClaudeResponse cparse cdata cs))) (h_promise ch) = Rejected ce
      \<and> map_of (cl_pendingRequests (snd (cl_handleClaudeResponse cparse cdata cs))) k = None"
    by blast
  show ?thesis by (intro conjI py' cl' listener)
qed

theorem error_response_rejects_witness:
  "(nonblank_lines py_error_line = [] @ py_error_line # []
      \<and> parse_example py_error_line
           = Inr (JObj [(''requestId'', JNum 1), (''error'', JStr ''Microphone not found'')])
      \<and> map_of (py_pendingRequests py_status_pending) 1 = Some \<lparr>h_timer = 0, h_promise = 1\<rparr>
      \<and> promises (py_rt py_status_pending) 1 = Unsettled)
   \<and> promises (py_rt (py_on_stdout parse_example py_error_line py_status_pending)) 1
        = Rejected ''Microphone not found''
   \<and> map_of (py_pendingRequests (py_on_stdout parse_example py_error_line py_status_pending)) 1 = None
   \<and> (find_request_id cl_error_line = None
      \<and> nonblank_lines cl_error_line = [] @ cl_error_line # []
      \<and> parse_example cl_error_line
           = Inr (JObj [(''requestId'', JStr ''1''), (''error'', JStr ''Session expired'')])
      \<and> map_of (cl_pendingRequests cl_status_pending) ''1''
           = Some \<lparr>h_timer = 0, h_promise = 1, h_prompt = False\<rparr>
      \<and> promises (cl_rt cl_status_pending) 1 = Unsettled)
   \<and> promises (cl_rt (snd (cl_handleClaudeResponse parse_example cl_error_line cl_status_pending))) 1
        = Rejected ''Session expired''
   \<and> map_of (cl_pendingRequests (snd (cl_handleClaudeResponse parse_example cl_error_line cl_status_pending))) ''1''
        = None
   \<and> error_listener (cl_rt cl_status_pending)
   \<and> fst (cl_lines parse_example cl_error_line [cl_error_line] cl_status_pending) = None"
  using error_response_rejects
          [where data = py_error_line and pre = "[]" and line = py_error_line and post = "[]"
             and parse = parse_example
             and response = "[(''requestId'', JNum 1), (''error'', JStr ''Microphone not found'')]"
             and n = 1 and ps = py_status_pending and h = "\<lparr>h_timer = 0, h_promise = 1\<rparr>"
             and e = "''Microphone not found''"
             and cdata = cl_error_line and cpre = "[]" and cline = cl_error_line and cpost = "[]"
             and cparse = parse_example and cs = cl_status_pending
             and cresponse = "[(''requestId'', JStr ''1''), (''error'', JStr ''Session expired'')]"
             and k = "''1''" and ch = "\<lparr>h_timer = 0, h_promise = 1, h_prompt = False\<rparr>"
             and ce = "''Session expired''"
             and ls = cl_status_pending and lparse = parse_example and lcontent = cl_error_line
             and llines = "[cl_error_line]"]
        example_lines parse_example_values py_status_pending_fields cl_status_pending_fields
  by simp

text \<open>The claim as stated fails on the speech bridge: a recognize request is pending,
  the child answers with the error "Audio format not supported", and the call is
  resolved, not rejected.\<close>

theorem audio_format_error_resolves:
  "map_of (py_pendingRequests py_recognize_pending) 1 = Some \<lparr>h_timer = 0, h_promise = 1\<rparr>
   \<and> promises (py_rt py_recognize_pending) 1 = Unsettled
   \<and> parse_example audio_error_line
        = Inr (JObj [(''requestId'', JNum 1), (''error'', JStr ''Audio format not supported'')])
   \<and> promises (py_rt (py_on_stdout parse_example audio_error_line py_recognize_pending)) 1
        = Resolved audio_format_result
   \<and> promises (py_rt (py_on_stdout parse_example audio_error_line py_recognize_pending)) 1
        \<noteq> Rejected ''Audio format not supported''"
  using py_line_audio_format_response
          [of parse_example audio_error_line
              "[(''requestId'', JNum 1), (''error'', JStr ''Audio format not supported'')]"
              1 py_recognize_pending "\<lparr>h_timer = 0, h_promise = 1\<rparr>"]
        example_lines parse_example_values py_recognize_pending_fields
  by (simp add: py_on_stdout_def)

lemma cl_lines_single:
  "snd (cl_lines parse content [line] st) = snd (cl_line parse content line st)"
  by (simp split: prod.splits option.splits)

lemma delete_is_filter: "AList.delete k xs = filter (\<lambda>(key, v). key \<noteq> k) xs"
  by (induction xs) auto

text \<open>
  Claim C2, as amended. A valid JSON response line that reaches the router, carries a
  \<^verbatim>\<open>requestId\<close> with a pending entry of a call that is still unsettled and has no
  \<^verbatim>\<open>error\<close> field resolves the originating call with exactly the parsed object
  minus its \<^verbatim>\<open>requestId\<close> field (the other fields in their order, nothing added)
  and removes the entry. On the assistant bridge this holds for an entry registered by
  \<^verbatim>\<open>_sendRequest\<close>, in a chunk without a \<^verbatim>\<open>REQUEST_ID:<digits>\<close> marker, when
  no line of the chunk before the response made the router throw (an exception ends the
  reading of the chunk). The line may stand anywhere in its chunk, and the entry is
  looked up in the state that the lines before it leave behind.
\<close>

theorem success_response_resolves:
  "(nonblank_lines data = pre @ line # post
      \<and> parse line = Inr (JObj response)
      \<and> map_of response ''requestId'' = Some (JNum n) \<and> n \<noteq> 0
      \<and> map_of (py_pendingRequests (py_lines parse pre ps)) n = Some h
      \<and> promises (py_rt (py_lines parse pre ps)) (h_promise h) = Unsettled
      \<and> map_of response ''error'' = None
    \<longrightarrow>
      promises (py_rt (py_on_stdout parse data ps)) (h_promise h)
        = Resolved (JObj (filter (\<lambda>(key, v). key \<noteq> ''requestId'') response))
      \<and> map_of (py_pendingRequests (py_on_stdout parse data ps)) n = None)
   \<and> (find_request_id cdata = None
      \<and> nonblank_lines cdata = cpre @ cline # cpost
      \<and> fst (cl_lines cparse cdata cpre cs) = None
      \<and> cparse cline = Inr (JObj cresponse)
      \<and> map_of cresponse ''requestId'' = Some (JStr k) \<and> k \<noteq> []
      \<and> map_of (cl_pendingRequests (snd (cl_lines cparse cdata cpre cs))) k = Some ch \<and> \<not> h_prompt ch
      \<and> promises (cl_rt (snd (cl_lines cparse cdata cpre cs))) (h_promise ch) = Unsettled
      \<and> map_of cresponse ''error'' = None
    \<longrightarrow>
      promises (cl_rt (snd (cl_handleClaudeResponse cparse cdata cs))) (h_promise ch)
        = Resolved (JObj (filter (\<lambda>(key, v). key \<noteq> ''requestId'') cresponse))
      \<and> map_of (cl_pendingRequests (snd (cl_handleClaudeResponse cparse cdata cs))) k = None)"
proof -
  have py: "promises (py_rt (py_on_stdout parse data ps)) (h_promise h)
        = Resolved (JObj (filter (\<lambda>(key, v). key \<noteq> ''requestId'') response))
      \<and> map_of (py_pendingRequests (py_on_stdout parse data ps)) n = None"
    if lines: "nonblank_lines data = pre @ line # post"
      and parsed: "parse line = Inr (JObj response)"
      and rid: "map_of response ''requestId'' = Some (JNum n)" "n \<noteq> 0"
      and pend: "map_of (py_pendingRequests (py_lines parse pre ps)) n = Some h"
      and unset: "promises (py_rt (py_lines parse pre ps)) (h_promise h) = Unsettled"
      and err: "map_of response ''error'' = None"
  proof -
    let ?st1 = "py_lines parse pre ps"
    let ?st2 = "py_line parse line ?st1"
    have whole: "py_on_stdout parse data ps = py_lines parse post ?st2"
      using lines by (simp add: py_on_stdout_def py_lines_append)
    from py_line_success_response [of parse line response n ?st1 h] parsed rid pend unset err
    have step: "promises (py_rt ?st2) (h_promise h)
          = Resolved (JObj (filter (\<lambda>(key, v). key \<noteq> ''requestId'') response))"
      and gone: "map_of (py_pendingRequests ?st2) n = None"
      by (simp_all add: delete_is_filter)
    from step have "promises (py_rt ?st2) (h_promise h) \<noteq> Unsettled" by simp
    from py_lines_once [of ?st2 "h_promise h" parse post] this step whole
         py_lines_absent [of ?st2 n parse post] gone
    show ?thesis by simp
  qed
  have cl: "promises (cl_rt (snd (cl_handleClaudeResponse cparse cdata cs))) (h_promise ch)
        = Resolved (JObj (filter (\<lambda>(key, v). key \<noteq> ''requestId'') cresponse))
      \<and> map_of (cl_pendingRequests (snd (cl_handleClaudeResponse cparse cdata cs))) k = None"
    if nomark: "find_request_id cdata = None"
      and lines: "nonblank_lines cdata = cpre @ cline # cpost"
      and quiet: "fst (cl_lines cparse cdata cpre cs) = None"
      and parsed: "cparse cline = Inr (JObj cresponse)"
      and rid: "map_of cresponse ''requestId'' = Some (JStr k)" "k \<noteq> []"
      and pend0: "map_of (cl_pendingRequests (snd (cl_lines cparse cdata cpre cs))) k = Some ch"
                 "\<not> h_prompt ch"
      and unset0: "promises (cl_rt (snd (cl_lines cparse cdata cpre cs))) (h_promise ch) = Unsettled"
      and err: "map_of cresponse ''error'' = None"
  proof -
    define cmid where "cmid = snd (cl_lines cparse cdata cpre cs)"
    from quiet have before: "cl_lines cparse cdata cpre cs = (None, cmid)"
      by (simp add: cmid_def prod_eq_iff)
    from pend0 have pend: "map_of (cl_pendingRequests cmid) k = Some ch" "\<not> h_prompt ch"
      by (simp_all add: cmid_def)
    from unset0 have unset: "promises (cl_rt cmid) (h_promise ch) = Unsettled"
      by (simp add: cmid_def)
    obtain exn st2 where l: "cl_line cparse cdata cline cmid = (exn, st2)"
      by (cases "cl_line cparse cdata cline cmid")
    from cl_line_success_response [of cparse cline cresponse k cmid ch cdata]
         parsed rid pend err unset l
    have exn: "exn = None"
      and step: "promises (cl_rt st2) (h_promise ch)
          = Resolved (JObj (filter (\<lambda>(key, v). key \<noteq> ''requestId'') cresponse))"
      and gone: "map_of (cl_pendingRequests st2) k = None"
      by (simp_all add: delete_is_filter)
    have "cl_lines cparse cdata (cpre @ cline # cpost) cs = cl_lines cparse cdata (cline # cpost) cmid"
      using before by (rule cl_lines_append)
    with l exn have "cl_lines cparse cdata (cpre @ cline # cpost) cs = cl_lines cparse cdata cpost st2"
      by simp
    with nomark lines
    have whole: "cl_handleClaudeResponse cparse cdata cs = cl_lines cparse cdata cpost st2"
      by (simp add: cl_handleClaudeResponse_def)
    from step have "promises (cl_rt st2) (h_promise ch) \<noteq> Unsettled" by simp
    from cl_lines_once [of st2 "h_promise ch" cparse cdata cpost] this step whole
         cl_lines_absent [of st2 k cparse cdata cpost] gone
    show ?thesis by simp
  qed
  from py cl show ?thesis by blast
qed

theorem success_response_resolves_witness:
  "(nonblank_lines py_success_line = [] @ py_success_line # []
      \<and> parse_example py_success_line = Inr (JObj [(''requestId'', JNum 1), (''status'', JStr ''ok'')])
      \<and> map_of (py_pendingRequests py_status_pending) 1 = Some \<lparr>h_timer = 0, h_promise = 1\<rparr>
      \<and> promises (py_rt py_status_pending) 1 = Unsettled)
   \<and> promises (py_rt (py_on_stdout parse_example py_success_line py_status_pending)) 1
        = Resolved (JObj [(''status'', JStr ''ok'')])
   \<and> map_of (py_pendingRequests (py_on_stdout parse_example py_success_line py_status_pending)) 1 = None
   \<and> (find_request_id cl_success_line = None
      \<and> nonblank_lines cl_success_line = [] @ cl_success_line # []
      \<and> parse_example cl_success_line
           = Inr (JObj [(''requestId'', JStr ''1''), (''isReady'', JBool True)])
      \<and> map_of (cl_pendingRequests cl_status_pending) ''1''
           = Some \<lparr>h_timer = 0, h_promise = 1, h_prompt = False\<rparr>
      \<and> promises (cl_rt cl_status_pending) 1 = Unsettled)
   \<and> promises (cl_rt (snd (cl_handleClaudeResponse parse_example cl_success_line cl_status_pending))) 1
        = Resolved (JObj [(''isReady'', JBool True)])
   \<and> map_of (cl_pendingRequests (snd (cl_handleClaudeResponse parse_example cl_success_line cl_status_pending))) ''1''
        = None"
  using success_response_resolves
          [where data = py_success_line and pre = "[]" and line = py_success_line and post = "[]"
             and parse = parse_example
             and response = "[(''requestId'', JNum 1), (''status'', JStr ''ok'')]"
             and n = 1 and ps = py_status_pending and h = "\<lparr>h_timer = 0, h_promise = 1\<rparr>"
             and cdata = cl_success_line and cpre = "[]" and cline = cl_success_line and cpost = "[]"
             and cparse = parse_example and cs = cl_status_pending
             and cresponse = "[(''requestId'', JStr ''1''), (''isReady'', JBool True)]"
             and k = "''1''" and ch = "\<lparr>h_timer = 0, h_promise = 1, h_prompt = False\<rparr>"]
        example_lines parse_example_values py_status_pending_fields cl_status_pending_fields
  by simp

text \<open>The claim as stated fails on the assistant bridge: the pending entry is the one
  of a prompt call (\<^verbatim>\<open>generateQuestion\<close> and its siblings), the child answers
  with a valid JSON line naming it, and the call is rejected, since the resolve
  closure of a prompt entry expects text.\<close>

theorem json_line_rejects_prompt_call:
  "find_request_id cl_success_line = None
   \<and> parse_example cl_success_line = Inr (JObj [(''requestId'', JStr ''1''), (''isReady'', JBool True)])
   \<and> map_of (cl_pendingRequests cl_prompt_pending) ''1''
        = Some \<lparr>h_timer = 0, h_promise = 1, h_prompt = True\<rparr>
   \<and> promises (cl_rt cl_prompt_pending) 1 = Unsettled
   \<and> promises (cl_rt (snd (cl_handleClaudeResponse parse_example cl_success_line cl_prompt_pending))) 1
        = Rejected ''Failed to parse Claude Code JSON response: response.match is not a function''
   \<and> promises (cl_rt (snd (cl_handleClaudeResponse parse_example cl_success_line cl_prompt_pending))) 1
        \<noteq> Resolved (JObj [(''isReady'', JBool True)])"
  using cl_line_success_response_prompt
          [of parse_example cl_success_line "[(''requestId'', JStr ''1''), (''isReady'', JBool True)]"
              "''1''" cl_prompt_pending "\<lparr>h_timer = 0, h_promise = 1, h_prompt = True\<rparr>"
              cl_success_line]
        example_lines parse_example_values cl_prompt_pending_fields
  by (simp add: cl_handleClaudeResponse_def cl_lines_single del: cl_lines.simps)

section \<open>Timeouts and late responses\<close>

lemma py_lines_unknown:
  "\<forall>line\<in>set ls. \<exists>response. parse line = Inr (JObj response)
       \<and> py_has (map_of response ''requestId'') st = None \<Longrightarrow>
   py_lines parse ls st = st"
proof (induction ls)
  case Nil
  then show ?case by simp
next
  case (Cons line ls)
  then obtain response where "parse line = Inr (JObj response)"
    "py_has (map_of response ''requestId'') st = None" by auto
  then have "py_line parse line st = st" by (rule py_line_unknown_response)
  with Cons show ?case by simp
qed

lemma cl_lines_unknown:
  "\<forall>line\<in>set ls. \<exists>response. parse line = Inr (JObj response)
       \<and> cl_has (map_of response ''requestId'') st = None \<Longrightarrow>
   cl_lines parse content ls st = (None, st)"
proof (induction ls)
  case Nil
  then show ?case by simp
next
  case (Cons line ls)
  then obtain response where "parse line = Inr (JObj response)"
    "cl_has (map_of response ''requestId'') st = None" by auto
  then have "cl_line parse content line st = (None, st)" by (rule cl_line_unknown_response)
  with Cons show ?case by simp
qed

lemma py_fire_timeout:
  assumes "map_of (timers (py_rt ps)) t = Some (delay, PyTimeout n request p)"
    and "promises (py_rt ps) p = Unsettled"
  shows "promises (py_rt (py_fire t ps)) p
           = (if map_of request ''action'' = Some (JStr ''recognize'')
              then Resolved py_timeout_result else Rejected ''Request timeout'')"
    and "map_of (py_pendingRequests (py_fire t ps)) n = None"
    and "map_of (timers (py_rt (py_fire t ps))) t = None"
  using assms by (simp_all add: py_fire_def settle_self delete_conv' Let_def)

lemma cl_fire_timeout:
  assumes "map_of (timers (cl_rt cs)) t = Some (delay, ClTimeout k p)"
    and "map_of (cl_pendingRequests cs) k \<noteq> None"
    and "promises (cl_rt cs) p = Unsettled"
  shows "promises (cl_rt (cl_fire t cs)) p = Rejected ''Request timeout''"
    and "map_of (cl_pendingRequests (cl_fire t cs)) k = None"
    and "map_of (timers (cl_rt (cl_fire t cs))) t = None"
  using assms by (auto simp: cl_fire_def settle_self delete_conv' Let_def)

text \<open>
  Claim C3, as amended. When the timer of a call fires while the call is unsettled, the
  call is settled with a timeout outcome and its pending entry is removed: the
  assistant bridge rejects with "Request timeout", provided an entry under the call's
  id is still in the table; the speech bridge rejects with "Request timeout", except
  that a \<^verbatim>\<open>recognize\<close> request is resolved with
  \<^verbatim>\<open>{ transcript: '', confidence: 0, error: 'Recognition timeout' }\<close>. Afterwards,
  and for every chunk of responses whose request ids have no pending entry, processing
  the chunk leaves the whole state as it was and no exception leaves the router; and
  no chunk at all changes a promise that is already settled.
\<close>

theorem timeout_then_late_response:
  "(map_of (timers (py_rt ps)) t = Some (delay, PyTimeout n request p)
      \<and> promises (py_rt ps) p = Unsettled
    \<longrightarrow> promises (py_rt (py_fire t ps)) p
          = (if map_of request ''action'' = Some (JStr ''recognize'')
             then Resolved py_timeout_result else Rejected ''Request timeout'')
      \<and> map_of (py_pendingRequests (py_fire t ps)) n = None)
   \<and> (map_of (timers (cl_rt cs)) ct = Some (cdelay, ClTimeout k cp)
      \<and> map_of (cl_pendingRequests cs) k \<noteq> None
      \<and> promises (cl_rt cs) cp = Unsettled
    \<longrightarrow> promises (cl_rt (cl_fire ct cs)) cp = Rejected ''Request timeout''
      \<and> map_of (cl_pendingRequests (cl_fire ct cs)) k = None)
   \<and> ((\<forall>line\<in>set (nonblank_lines data). \<exists>response. parse line = Inr (JObj response)
          \<and> py_has (map_of response ''requestId'') qs = None)
    \<longrightarrow> py_on_stdout parse data qs = qs)
   \<and> (find_request_id cdata = None
      \<and> (\<forall>line\<in>set (nonblank_lines cdata). \<exists>response. cparse line = Inr (JObj response)
          \<and> cl_has (map_of response ''requestId'') ds = None)
    \<longrightarrow> cl_handleClaudeResponse cparse cdata ds = (None, ds))
   \<and> (find_request_id mdata = Some mk \<and> map_of (cl_pendingRequests ms) mk = None
    \<longrightarrow> cl_handleClaudeResponse cparse mdata ms = (None, ms))
   \<and> (promises (py_rt fs) x \<noteq> Unsettled
    \<longrightarrow> promises (py_rt (py_on_stdout parse adata fs)) x = promises (py_rt fs) x)
   \<and> (promises (cl_rt gs) cx \<noteq> Unsettled
    \<longrightarrow> promises (cl_rt (snd (cl_handleClaudeResponse cparse bdata gs))) cx = promises (cl_rt gs) cx)"
proof -
  have a: "map_of (timers (py_rt ps)) t = Some (delay, PyTimeout n request p)
      \<and> promises (py_rt ps) p = Unsettled
    \<longrightarrow> promises (py_rt (py_fire t ps)) p
          = (if map_of request ''action'' = Some (JStr ''recognize'')
             then Resolved py_timeout_result else Rejected ''Request timeout'')
      \<and> map_of (py_pendingRequests (py_fire t ps)) n = None"
    using py_fire_timeout [of ps t delay n request p] by blast
  have b: "map_of (timers (cl_rt cs)) ct = Some (cdelay, ClTimeout k cp)
      \<and> map_of (cl_pendingRequests cs) k \<noteq> None
      \<and> promises (cl_rt cs) cp = Unsettled
    \<longrightarrow> promises (cl_rt (cl_fire ct cs)) cp = Rejected ''Request timeout''
      \<and> map_of (cl_pendingRequests (cl_fire ct cs)) k = None"
    using cl_fire_timeout [of cs ct cdelay k cp] by blast
  have c: "(\<forall>line\<in>set (nonblank_lines data). \<exists>response. parse line = Inr (JObj response)
          \<and> py_has (map_of response ''requestId'') qs = None)
    \<longrightarrow> py_on_stdout parse data qs = qs"
    using py_lines_unknown [of "nonblank_lines data" parse qs] by (simp add: py_on_stdout_def)
  have d: "find_request_id cdata = None
      \<and> (\<forall>line\<in>set (nonblank_lines cdata). \<exists>response. cparse line = Inr (JObj response)
          \<and> cl_has (map_of response ''requestId'') ds = None)
    \<longrightarrow> cl_handleClaudeResponse cparse cdata ds = (None, ds)"
    using cl_lines_unknown [of "nonblank_lines cdata" cparse ds cdata]
    by (simp add: cl_handleClaudeResponse_def)
  have e: "find_request_id mdata = Some mk \<and> map_of (cl_pendingRequests ms) mk = None
    \<longrightarrow> cl_handleClaudeResponse cparse mdata ms = (None, ms)"
    by (simp add: cl_handleClaudeResponse_def)
  have f: "promises (py_rt fs) x \<noteq> Unsettled
    \<longrightarrow> promises (py_rt (py_on_stdout parse adata fs)) x = promises (py_rt fs) x"
    using py_lines_once [of fs x parse "nonblank_lines adata"] by (simp add: py_on_stdout_def)
  have g: "promises (cl_rt gs) cx \<noteq> Unsettled
    \<longrightarrow> promises (cl_rt (snd (cl_handleClaudeResponse cparse bdata gs))) cx = promises (cl_rt gs) cx"
  proof
    assume s: "promises (cl_rt gs) cx \<noteq> Unsettled"
    show "promises (cl_rt (snd (cl_handleClaudeResponse cparse bdata gs))) cx = promises (cl_rt gs) cx"
    proof (cases "find_request_id bdata")
      case None
      with cl_lines_once [OF s, of cparse bdata "nonblank_lines bdata"]
      show ?thesis by (simp add: cl_handleClaudeResponse_def)
    next
      case (Some rid)
      with s show ?thesis
        by (simp add: cl_handleClaudeResponse_def cl_resolve_once Let_def split: option.splits)
    qed
  qed
  from a b c d e f g show ?thesis by blast
qed

lemma py_timed_out_fields:
  "py_pendingRequests (py_fire 0 py_status_pending) = []"
  "promises (py_rt (py_fire 0 py_status_pending)) 1 = Rejected ''Request timeout''"
  using py_status_pending_fields
  by (simp_all add: py_fire_def settle_self status_request_def Let_def)

lemma cl_timed_out_fields:
  "cl_pendingRequests (cl_fire 0 cl_status_pending) = []"
  "promises (cl_rt (cl_fire 0 cl_status_pending)) 1 = Rejected ''Request timeout''"
  using cl_status_pending_fields
  by (simp_all add: cl_fire_def settle_self Let_def)

theorem timeout_then_late_response_witness:
  "(map_of (timers (py_rt py_status_pending)) 0
        = Some (10000, PyTimeout 1 (status_request @ [(''requestId'', JNum 1)]) 1)
      \<and> promises (py_rt py_status_pending) 1 = Unsettled)
   \<and> promises (py_rt (py_fire 0 py_status_pending)) 1 = Rejected ''Request timeout''
   \<and> map_of (py_pendingRequests (py_fire 0 py_status_pending)) 1 = None
   \<and> (map_of (timers (cl_rt cl_status_pending)) 0 = Some (5000, ClTimeout ''1'' 1)
      \<and> map_of (cl_pendingRequests cl_status_pending) ''1'' \<noteq> None
      \<and> promises (cl_rt cl_status_pending) 1 = Unsettled)
   \<and> promises (cl_rt (cl_fire 0 cl_status_pending)) 1 = Rejected ''Request timeout''
   \<and> map_of (cl_pendingRequests (cl_fire 0 cl_status_pending)) ''1'' = None
   \<and> (nonblank_lines py_success_line = [py_success_line]
      \<and> parse_example py_success_line = Inr (JObj [(''requestId'', JNum 1), (''status'', JStr ''ok'')])
      \<and> py_has (Some (JNum 1)) (py_fire 0 py_status_pending) = None)
   \<and> py_on_stdout parse_example py_success_line (py_fire 0 py_status_pending)
        = py_fire 0 py_status_pending
   \<and> (find_request_id cl_success_line = None
      \<and> nonblank_lines cl_success_line = [cl_success_line]
      \<and> parse_example cl_success_line
           = Inr (JObj [(''requestId'', JStr ''1''), (''isReady'', JBool True)])
      \<and> cl_has (Some (JStr ''1'')) (cl_fire 0 cl_status_pending) = None)
   \<and> cl_handleClaudeResponse parse_example cl_success_line (cl_fire 0 cl_status_pending)
        = (None, cl_fire 0 cl_status_pending)
   \<and> (find_request_id ''REQUEST_ID:1'' = Some ''1''
      \<and> map_of (cl_pendingRequests (cl_fire 0 cl_status_pending)) ''1'' = None)
   \<and> cl_handleClaudeResponse parse_example ''REQUEST_ID:1'' (cl_fire 0 cl_status_pending)
        = (None, cl_fire 0 cl_status_pending)
   \<and> promises (py_rt (py_fire 0 py_status_pending)) 1 \<noteq> Unsettled
   \<and> promises (py_rt (py_on_stdout parse_example py_success_line (py_fire 0 py_status_pending))) 1
        = Rejected ''Request timeout''
   \<and> promises (cl_rt (cl_fire 0 cl_status_pending)) 1 \<noteq> Unsettled
   \<and> promises (cl_rt (snd (cl_handleClaudeResponse parse_example cl_success_line
                               (cl_fire 0 cl_status_pending)))) 1
        = Rejected ''Request timeout''"
  using timeout_then_late_response
          [where ps = py_status_pending and t = 0 and delay = 10000 and n = 1
             and request = "status_request @ [(''requestId'', JNum 1)]" and p = 1
             and cs = cl_status_pending and ct = 0 and cdelay = 5000 and k = "''1''" and cp = 1
             and data = py_success_line and parse = parse_example
             and qs = "py_fire 0 py_status_pending"
             and cdata = cl_success_line and cparse = parse_example
             and ds = "cl_fire 0 cl_status_pending"
             and mdata = "''REQUEST_ID:1''" and mk = "''1''" and ms = "cl_fire 0 cl_status_pending"
             and fs = "py_fire 0 py_status_pending" and x = 1 and adata = py_success_line
             and gs = "cl_fire 0 cl_status_pending" and cx = 1 and bdata = cl_success_line]
        example_lines parse_example_values py_status_pending_fields cl_status_pending_fields
        py_timed_out_fields cl_timed_out_fields
  by (simp add: py_has_def cl_has_def status_request_def is_digit_def)

text \<open>The claim as stated fails on the speech bridge: a recognize request whose timer
  fires is resolved with a result object, not rejected with a timeout error.\<close>

theorem recognize_timeout_resolves:
  "map_of (timers (py_rt py_recognize_pending)) 0
       = Some (5000, PyTimeout 1 (recognize_request @ [(''requestId'', JNum 1)]) 1)
   \<and> promises (py_rt py_recognize_pending) 1 = Unsettled
   \<and> promises (py_rt (py_fire 0 py_recognize_pending)) 1 = Resolved py_timeout_result
   \<and> promises (py_rt (py_fire 0 py_recognize_pending)) 1 \<noteq> Rejected ''Request timeout''"
  using py_fire_timeout(1) [of py_recognize_pending 0 5000 1
                               "recognize_request @ [(''requestId'', JNum 1)]" 1]
        py_recognize_pending_fields
  by (simp add: recognize_request_def)

section \<open>Exit, restart and stop\<close>

lemma cl_reset_fields [simp]:
  "claudeProcess (cl_reset st) = None" "\<not> cl_isReady (cl_reset st)"
  "cl_requestQueue (cl_reset st) = []" "cl_pendingRequests (cl_reset st) = []"
  "cl_requestId (cl_reset st) = 0" "cl_maxQueueSize (cl_reset st) = cl_maxQueueSize st"
  "timers (cl_rt (cl_reset st)) = timers (cl_rt st)"
  "next_timer (cl_rt (cl_reset st)) = next_timer (cl_rt st)"
  "promises (cl_rt (cl_reset st)) = promises (cl_rt st)"
  "continuations (cl_rt (cl_reset st)) = continuations (cl_rt st)"
  "trace (cl_rt (cl_reset st)) = trace (cl_rt st)"
  "next_pid (cl_rt (cl_reset st)) = next_pid (cl_rt st)"
  "spawn_error (cl_rt (cl_reset st)) = spawn_error (cl_rt st)"
  "cl_exit_once (cl_reset st) = cl_exit_once st"
  "log_contents (cl_logs (cl_reset st)) (cl_rt (cl_reset st)) = ([], [])"
  by (simp_all add: cl_reset_def new_array_def log_contents_def Let_def)






















section \<open>Stopping a bridge\<close>

text \<open>What \<^verbatim>\<open>stop()\<close> of the speech bridge does to the calls in flight: each one that
  is unsettled is rejected with "Service stopped", and no settled promise changes.\<close>

lemma reject_all_cases:
  "promises (fold (\<lambda>(requestId, h). reject_handler h m) ps r) x = promises r x
   \<or> (promises r x = Unsettled
      \<and> promises (fold (\<lambda>(requestId, h). reject_handler h m) ps r) x = Rejected m)"
proof (induction ps arbitrary: r)
  case Nil
  then show ?case by simp
next
  case (Cons a ps)
  obtain n h where a: "a = (n, h)" by (cases a)
  let ?r1 = "reject_handler h m r"
  have step: "promises ?r1 x = promises r x \<or> (promises r x = Unsettled \<and> promises ?r1 x = Rejected m)"
    using settle_Rejected [of "h_promise h" m "clear_timeout (h_timer h) r" x]
    by (simp add: reject_handler_def)
  from Cons.IH [of ?r1] step a show ?case by auto
qed

lemma reject_all_member:
  "(n, h) \<in> set ps \<Longrightarrow>
   promises (fold (\<lambda>(requestId, h). reject_handler h m) ps r) (h_promise h) \<noteq> Unsettled"
proof (induction ps arbitrary: r)
  case Nil
  then show ?case by simp
next
  case (Cons a ps)
  obtain n' h' where a: "a = (n', h')" by (cases a)
  let ?r1 = "reject_handler h' m r"
  show ?case
  proof (cases "(n, h) \<in> set ps")
    case True
    from Cons.IH [OF True, of ?r1] a show ?thesis by simp
  next
    case False
    with Cons.prems a have eq: "h' = h" by simp
    have "promises ?r1 (h_promise h) \<noteq> Unsettled"
      using settle_not_unsettled [of "Rejected m" "h_promise h" "clear_timeout (h_timer h) r"] eq
      by (simp add: reject_handler_def)
    with reject_all_cases [of m ps ?r1 "h_promise h"] a show ?thesis by auto
  qed
qed

lemma reject_all_fields [simp]:
  "trace (fold (\<lambda>(requestId, h). reject_handler h m) ps r) = trace r"
  "next_promise (fold (\<lambda>(requestId, h). reject_handler h m) ps r) = next_promise r"
  by (induction ps arbitrary: r) (auto simp: reject_handler_def)

lemma py_stop_rejects_pending:
  assumes "pythonProcess ps = Some pid"
  shows "\<forall>(n, h)\<in>set (py_pendingRequests ps).
           promises (py_rt ps) (h_promise h) = Unsettled \<longrightarrow>
           promises (py_rt (snd (py_stop ps))) (h_promise h) = Rejected ''Service stopped''"
    and "py_pendingRequests (snd (py_stop ps)) = []"
    and "pythonProcess (snd (py_stop ps)) = None" and "\<not> py_isReady (snd (py_stop ps))"
    and "trace (py_rt (snd (py_stop ps))) = trace (py_rt ps) @ [Kill pid ''SIGTERM'', Emit ''stopped'']"
    and "py_requestQueue (snd (py_stop ps)) = py_requestQueue ps"
    and "py_requestId (snd (py_stop ps)) = py_requestId ps"
    and "py_logs (snd (py_stop ps)) = py_logs ps"
proof -
  let ?p = "next_promise (py_rt ps)"
  let ?r0 = "snd (new_promise (py_rt ps))"
  let ?r1 = "effect (Kill pid ''SIGTERM'') ?r0"
  let ?r2 = "fold (\<lambda>(requestId, h). reject_handler h ''Service stopped'') (py_pendingRequests ps) ?r1"
  let ?r3 = "effect (Emit ''stopped'') ?r2"
  have stop: "snd (py_stop ps) =
      ps\<lparr>pythonProcess := None, py_isReady := False, py_pendingRequests := [],
         py_rt := settle ?p (Resolved JNull) ?r3\<rparr>"
    using assms by (simp add: py_stop_def new_promise_def Let_def)
  show "\<forall>(n, h)\<in>set (py_pendingRequests ps).
           promises (py_rt ps) (h_promise h) = Unsettled \<longrightarrow>
           promises (py_rt (snd (py_stop ps))) (h_promise h) = Rejected ''Service stopped''"
  proof (clarify)
    fix n h
    assume mem: "(n, h) \<in> set (py_pendingRequests ps)"
      and u: "promises (py_rt ps) (h_promise h) = Unsettled"
    from u have u1: "promises ?r1 (h_promise h) = Unsettled"
      by (simp add: new_promise_def effect_def)
    from reject_all_member [OF mem, of "''Service stopped''" ?r1]
         reject_all_cases [of "''Service stopped''" "py_pendingRequests ps" ?r1 "h_promise h"] u1
    have r2: "promises ?r2 (h_promise h) = Rejected ''Service stopped''" by auto
    then have "promises ?r3 (h_promise h) \<noteq> Unsettled" by (simp add: effect_def)
    from settle_once [OF this, of ?p "Resolved JNull"] r2
    show "promises (py_rt (snd (py_stop ps))) (h_promise h) = Rejected ''Service stopped''"
      by (simp add: stop effect_def)
  qed
  show "py_pendingRequests (snd (py_stop ps)) = []" "pythonProcess (snd (py_stop ps)) = None"
    "\<not> py_isReady (snd (py_stop ps))" "py_requestQueue (snd (py_stop ps)) = py_requestQueue ps"
    "py_requestId (snd (py_stop ps)) = py_requestId ps" "py_logs (snd (py_stop ps)) = py_logs ps"
    by (simp_all add: stop)
  show "trace (py_rt (snd (py_stop ps))) = trace (py_rt ps) @ [Kill pid ''SIGTERM'', Emit ''stopped'']"
    by (simp add: stop effect_def new_promise_def)
qed

lemma cl_stopped_in_flight_fields:
  "promises (cl_rt cl_stopped_in_flight) 1 = Unsettled"
  "promises (cl_rt cl_stopped_in_flight) 2 = Resolved JNull"
  "cl_pendingRequests cl_stopped_in_flight = []"
  "claudeProcess cl_stopped_in_flight = None"
  "timers (cl_rt cl_stopped_in_flight) = [(0, 5000, ClTimeout ''1'' 1), (1, 5000, ForceKill 2)]"
  using cl_status_pending_fields cl_sendRequest_live [of cl_ready 0 "''getStatus''" "[]" 5000]
  by (simp_all add: cl_stopped_in_flight_def cl_on_exit_def cl_stop_def cl_status_pending_def
        new_promise_def set_timeout_def effect_def settle_fresh Let_def)

lemma cl_stopped_queued_fields:
  "cl_requestQueue cl_status_queued = [QueuedRequest ''getStatus'' [] 1 5000]"
  "promises (cl_rt cl_status_queued) 1 = Unsettled"
  "promises (cl_rt cl_stopped_queued) 1 = Unsettled"
  "promises (cl_rt cl_stopped_queued) 2 = Resolved JNull"
  "cl_requestQueue cl_stopped_queued = []"
  "claudeProcess cl_stopped_queued = None"
  "timers (cl_rt cl_stopped_queued) = [(0, 5000, ForceKill 2)]"
  by (simp_all add: cl_stopped_queued_def cl_status_queued_def cl_sendRequest_def cl_on_exit_def
        cl_stop_def new_promise_def set_timeout_def effect_def settle_fresh Let_def)

text \<open>
  Claim C7 asks that \<^verbatim>\<open>stop()\<close> rejects every pending and every queued call with a
  stopped error and leaves none unsettled. The speech bridge does so for its pending
  calls (the lemma above). The assistant bridge does not: with \<^verbatim>\<open>getStatus()\<close> in
  flight as request 1 (promise 1), \<^verbatim>\<open>stop()\<close> followed by the exit of the process
  resolves the promise of \<^verbatim>\<open>stop()\<close> and empties the table, but promise 1 stays
  unsettled; the timer of the call then finds no entry and does nothing, and the
  forced kill finds no process, so promise 1 is never settled. The same happens to a
  call that was queued before the banner: the queue is emptied and its promise stays
  unsettled.
\<close>

theorem stop_leaves_call_unsettled:
  "map_of (cl_pendingRequests cl_status_pending) ''1''
       = Some \<lparr>h_timer = 0, h_promise = 1, h_prompt = False\<rparr>
   \<and> promises (cl_rt cl_status_pending) 1 = Unsettled
   \<and> promises (cl_rt cl_stopped_in_flight) 2 = Resolved JNull
   \<and> cl_pendingRequests cl_stopped_in_flight = []
   \<and> promises (cl_rt cl_stopped_in_flight) 1 = Unsettled
   \<and> promises (cl_rt (cl_fire 1 (cl_fire 0 cl_stopped_in_flight))) 1 = Unsettled
   \<and> timers (cl_rt (cl_fire 1 (cl_fire 0 cl_stopped_in_flight))) = []
   \<and> cl_pendingRequests (cl_fire 1 (cl_fire 0 cl_stopped_in_flight)) = []
   \<and> cl_requestQueue cl_status_queued = [QueuedRequest ''getStatus'' [] 1 5000]
   \<and> promises (cl_rt cl_status_queued) 1 = Unsettled
   \<and> cl_requestQueue cl_stopped_queued = []
   \<and> promises (cl_rt (cl_fire 0 cl_stopped_queued)) 1 = Unsettled
   \<and> timers (cl_rt (cl_fire 0 cl_stopped_queued)) = []"
  using cl_stopped_in_flight_fields cl_status_pending_fields cl_stopped_queued_fields
  by (simp add: cl_fire_def clear_timeout_def)

section \<open>Draining the queue\<close>




lemma forward_to_fields [simp]:
  "trace (forward_to q res r) = trace r" "write_error (forward_to q res r) = write_error r"
  "timers (forward_to q res r) = timers r" "next_timer (forward_to q res r) = next_timer r"
  "next_promise (forward_to q res r) = next_promise r" "spawn_error (forward_to q res r) = spawn_error r"
  by (simp_all add: forward_to_def attach_def split: call_result.splits settled.splits)



lemma cl_core_refl [simp]: "cl_core_unchanged pid st st"
  by (simp add: cl_core_unchanged_def)


lemma cl_core_rt:
  "trace r = trace (cl_rt st) \<Longrightarrow> write_error r = write_error (cl_rt st) \<Longrightarrow>
   cl_core_unchanged pid st (st\<lparr>cl_rt := r\<rparr>)"
  by (simp add: cl_core_unchanged_def written_def)

lemma cl_resolve_fields [simp]:
  "trace (cl_resolve parse h v r) = trace r" "write_error (cl_resolve parse h v r) = write_error r"
  by (simp_all add: cl_resolve_def Let_def split: json.splits option.splits sum.splits)

lemma reject_handler_fields [simp]:
  "trace (reject_handler h m r) = trace r" "write_error (reject_handler h m r) = write_error r"
  by (simp_all add: reject_handler_def)

lemma reject_error_fields [simp]:
  "trace (reject_error h e r) = trace r" "write_error (reject_error h e r) = write_error r"
  by (simp_all add: reject_error_def)







lemma cl_frames_append:
  "cl_frames n (xs @ ys) = cl_frames n xs @ cl_frames (n + int (length xs)) ys"
proof (induction xs arbitrary: n)
  case Nil
  then show ?case by simp
next
  case (Cons c xs)
  have "n + 1 + int (length xs) = n + int (length (c # xs))" by simp
  with Cons.IH [of "n + 1"] show ?case by (cases c) simp_all
qed




lemma string_of_int_2 [simp]: "string_of_int 2 = ''2''"
  by (simp add: string_of_int_def string_of_nat.simps digit_char_def)



end
